theory Spec2Isabelle
  imports
    Complex_Main
    "HOL-Library.Char_ord"
    "HOL-Library.List_Lexorder"
    "HOL-Library.Product_Lexorder"
begin

section \<open>Survey statistics of \<^verbatim>\<open>utilities.py\<close>\<close>

text \<open>
  The functions of \<^verbatim>\<open>src/utilities.py\<close> are embedded as HOL functions over
  explicit tables. A pandas Series of numbers is a list of optional reals, where
  \<open>None\<close> is the missing value (NaN). Finite floating-point arithmetic is modelled
  by exact real arithmetic: rounding is not part of the model. Only the derived
  tables are modelled, not the drawing calls that consume them.
\<close>

subsection \<open>Series helpers\<close>

text \<open>Non-missing values of a Series, in row order.\<close>

fun dropna :: "'a option list \<Rightarrow> 'a list" where
  "dropna [] = []"
| "dropna (None # xs) = dropna xs"
| "dropna (Some x # xs) = x # dropna xs"

text \<open>
  The loop \<^verbatim>\<open>for value in vs: if value not in acc: acc.append(value)\<close>.
  Started on the empty list it is also \<^verbatim>\<open>Series.unique()\<close>: the distinct
  values in order of first appearance.
\<close>

fun append_new :: "'a list \<Rightarrow> 'a list \<Rightarrow> 'a list" where
  "append_new acc [] = acc"
| "append_new acc (v # vs) = append_new (if v \<in> set acc then acc else acc @ [v]) vs"

definition unique :: "'a list \<Rightarrow> 'a list" where
  "unique xs = append_new [] xs"

text \<open>
  \<^verbatim>\<open>Series.quantile(q)\<close> with the default linear interpolation: missing values
  are skipped, the sorted values are indexed at the position \<open>(n - 1) * q\<close> and
  the two neighbours are interpolated. An empty Series gives NaN.
\<close>

definition quantile :: "real option list \<Rightarrow> real \<Rightarrow> real option" where
  "quantile col q =
     (let vs = sort (dropna col); n = length vs in
      if n = 0 then None
      else
        let h = real (n - 1) * q;
            lo = nat \<lfloor>h\<rfloor>;
            hi = min (lo + 1) (n - 1)
        in Some (vs ! lo + (h - real lo) * (vs ! hi - vs ! lo)))"

text \<open>Python's \<^verbatim>\<open>int(x)\<close> on a float: truncation towards zero.\<close>

definition py_int :: "real \<Rightarrow> int" where
  "py_int x = (if 0 \<le> x then \<lfloor>x\<rfloor> else \<lceil>x\<rceil>)"

subsection \<open>Outlier detection: \<^verbatim>\<open>find_outliers\<close>\<close>

text \<open>
  A DataFrame of numeric columns is a map from column names to Series;
  \<^verbatim>\<open>feature not in df.columns\<close> is \<open>df feature = None\<close>. What the function
  prints is returned beside the list, one message per feature.
\<close>

type_synonym data_frame = "string \<rightharpoonup> real option list"

datatype message =
    FeatureNotFound string
  | UniqueOutliers string "int list"
  | NoOutliers string

text \<open>
  Lines 38 to 46. A comparison with NaN is false, so a missing value is never
  selected, and NaN bounds (an empty column) select nothing.
\<close>

definition feature_outliers :: "real option list \<Rightarrow> real list" where
  "feature_outliers col =
     (case quantile col 0.25 of
        None \<Rightarrow> []
      | Some q1 \<Rightarrow>
         (case quantile col 0.75 of
            None \<Rightarrow> []
          | Some q3 \<Rightarrow>
             (let iqr = q3 - q1;
                  lower_bound = q1 - 1.5 * iqr;
                  upper_bound = q3 + 1.5 * iqr
              in filter (\<lambda>v. v < lower_bound \<or> v > upper_bound) (dropna col))))"

definition feature_outliers_unique :: "real option list \<Rightarrow> int list" where
  "feature_outliers_unique col = map py_int (unique (feature_outliers col))"

fun find_outliers_loop ::
  "data_frame \<Rightarrow> string list \<Rightarrow> int list \<times> message list \<Rightarrow> int list \<times> message list" where
  "find_outliers_loop df [] st = st"
| "find_outliers_loop df (feature # features) (outliers_list, printed) =
     (case df feature of
        None \<Rightarrow>
          find_outliers_loop df features (outliers_list, printed @ [FeatureNotFound feature])
      | Some col \<Rightarrow>
          (let fu = feature_outliers_unique col in
           find_outliers_loop df features
             (append_new outliers_list fu,
              printed @ [if fu \<noteq> [] then UniqueOutliers feature fu else NoOutliers feature])))"

definition find_outliers :: "data_frame \<Rightarrow> string list \<Rightarrow> int list \<times> message list" where
  "find_outliers df features = find_outliers_loop df features ([], [])"

text \<open>
  The OutlierSet of the specification, in its words: the values of a column
  lying strictly outside \<open>[Q1 - 1.5 IQR, Q3 + 1.5 IQR]\<close>, truncated to whole
  numbers.
\<close>

definition outlier_set :: "real option list \<Rightarrow> int set" where
  "outlier_set col =
     {py_int v | v q1 q3.
        v \<in> set (dropna col) \<and> quantile col (1 / 4) = Some q1 \<and> quantile col (3 / 4) = Some q3 \<and>
        (v < q1 - (3 / 2) * (q3 - q1) \<or> q3 + (3 / 2) * (q3 - q1) < v)}"


text \<open>Helpers of the analysis: what one feature contributes and what is printed for it.\<close>

definition feature_values :: "data_frame \<Rightarrow> string \<Rightarrow> int list" where
  "feature_values df f =
     (case df f of None \<Rightarrow> [] | Some col \<Rightarrow> feature_outliers_unique col)"

definition feature_message :: "data_frame \<Rightarrow> string \<Rightarrow> message" where
  "feature_message df f =
     (case df f of
        None \<Rightarrow> FeatureNotFound f
      | Some col \<Rightarrow>
          (if feature_outliers_unique col \<noteq> [] then UniqueOutliers f (feature_outliers_unique col)
           else NoOutliers f))"

subsection \<open>The long-format survey table\<close>

text \<open>
  One row per respondent, question and survey wave. \<open>AnswerText\<close> is text; a null
  answer is \<open>None\<close>.
\<close>

record survey_record =
  UserID :: int
  QuestionID :: int
  AnswerText :: "string option"
  SurveyID :: int

type_synonym survey_table = "survey_record list"

text \<open>
  \<^verbatim>\<open>groupby(["SurveyID", "AnswerText"]).size().reset_index(name="Count")\<close>:
  one row per observed pair, in ascending key order; rows with a null key are
  dropped by the grouping.
\<close>

definition group_keys :: "survey_table \<Rightarrow> (int \<times> string) list" where
  "group_keys df =
     sort (remdups (dropna (map (\<lambda>r. map_option (\<lambda>a. (SurveyID r, a)) (AnswerText r)) df)))"

definition group_size :: "survey_table \<Rightarrow> (int \<times> string \<times> nat) list" where
  "group_size df =
     map (\<lambda>(y, a). (y, a, length (filter (\<lambda>r. SurveyID r = y \<and> AnswerText r = Some a) df)))
       (group_keys df)"

subsection \<open>Distribution of answers per wave: \<^verbatim>\<open>create_gender_barplot\<close>\<close>

record gender_row =
  gc_SurveyID :: int
  gc_AnswerText :: string
  gc_Count :: nat
  gc_Percentage :: real

text \<open>\<^verbatim>\<open>gender_counts.groupby("SurveyID")["Count"].transform("sum")\<close> at one row.\<close>

definition gender_sum :: "(int \<times> string \<times> nat) list \<Rightarrow> int \<Rightarrow> nat" where
  "gender_sum gender_counts y =
     sum_list (map (\<lambda>(y', a, c). c) (filter (\<lambda>(y', a, c). y' = y) gender_counts))"

definition create_gender_barplot :: "survey_table \<Rightarrow> gender_row list" where
  "create_gender_barplot df =
     (let gender_df = filter (\<lambda>r. QuestionID r = 2) df;
          gender_counts = sort_key (\<lambda>(y, a, c). (y, a)) (group_size gender_df)
      in map (\<lambda>(y, a, c).
                \<lparr>gc_SurveyID = y, gc_AnswerText = a, gc_Count = c,
                 gc_Percentage = real c / real (gender_sum gender_counts y) * 100\<rparr>)
           gender_counts)"

subsection \<open>Percentages pivoted by wave: \<^verbatim>\<open>create_lineplot\<close>\<close>

text \<open>
  A pivoted table: the row labels, the column labels and the cells, row by row.
  A cell is \<open>None\<close> where pandas has NaN.
\<close>

record pivoted =
  p_index :: "int list"
  p_columns :: "string list"
  p_values :: "real option list list"

text \<open>
  \<^verbatim>\<open>pivot_table(index="SurveyID", columns="AnswerText", values="Count", aggfunc="sum")\<close>,
  called without \<^verbatim>\<open>fill_value\<close>: a pair with no row of counts is NaN.
\<close>

definition pivot_cell :: "(int \<times> string \<times> nat) list \<Rightarrow> int \<Rightarrow> string \<Rightarrow> real option" where
  "pivot_cell df_counts y a =
     (let cs = map (\<lambda>(y', a', c). c) (filter (\<lambda>(y', a', c). y' = y \<and> a' = a) df_counts)
      in if cs = [] then None else Some (real (sum_list cs)))"

definition pivot_table :: "(int \<times> string \<times> nat) list \<Rightarrow> pivoted" where
  "pivot_table df_counts =
     (let idx = sort (remdups (map (\<lambda>(y, a, c). y) df_counts));
          cols = sort (remdups (map (\<lambda>(y, a, c). a) df_counts))
      in \<lparr>p_index = idx, p_columns = cols,
          p_values = map (\<lambda>y. map (\<lambda>a. pivot_cell df_counts y a) cols) idx\<rparr>)"

text \<open>\<^verbatim>\<open>row.sum()\<close> skips NaN.\<close>

definition nansum :: "real option list \<Rightarrow> real" where
  "nansum row = sum_list (dropna row)"

text \<open>\<^verbatim>\<open>df_pivoted.div(df_pivoted.sum(axis=1), axis=0) * 100\<close>; NaN stays NaN.\<close>

definition row_pct :: "real option list \<Rightarrow> real option list" where
  "row_pct row = map (map_option (\<lambda>c. c / nansum row * 100)) row"

definition pivoted_pct :: "survey_table \<Rightarrow> int \<Rightarrow> pivoted" where
  "pivoted_pct df question_id =
     (let curr_df = filter (\<lambda>r. QuestionID r = question_id) df;
          df_counts = group_size curr_df;
          df_pivoted = pivot_table df_counts
      in df_pivoted\<lparr>p_values := map row_pct (p_values df_pivoted)\<rparr>)"

text \<open>
  The loop runs over \<^verbatim>\<open>zip(axes, questions)\<close> with two axes, so over the first
  two question ids.
\<close>

definition create_lineplot :: "survey_table \<Rightarrow> int list \<Rightarrow> pivoted list" where
  "create_lineplot df questions = map (pivoted_pct df) (take 2 questions)"

text \<open>
  Counts used to state what the pivoted table holds: the rows of a question with
  a given wave and answer, and the rows of a question and wave with any answer.
\<close>

definition answer_count :: "survey_table \<Rightarrow> int \<Rightarrow> int \<Rightarrow> string \<Rightarrow> nat" where
  "answer_count df q y a =
     length (filter (\<lambda>r. QuestionID r = q \<and> SurveyID r = y \<and> AnswerText r = Some a) df)"

definition wave_count :: "survey_table \<Rightarrow> int \<Rightarrow> int \<Rightarrow> nat" where
  "wave_count df q y =
     length (filter (\<lambda>r. QuestionID r = q \<and> SurveyID r = y \<and> AnswerText r \<noteq> None) df)"

subsection \<open>Prevalence rates: \<^verbatim>\<open>create_prevalence_barplot\<close>\<close>

text \<open>
  The rates are float64 columns, and a zero divisor produces the special values
  of IEEE 754 instead of an exception. A float64 is therefore a finite value, an
  infinity or NaN; finite results are exact reals, zero is the positive zero, and
  overflow does not occur.
\<close>

datatype float64 = Fin real | PInf | NInf | NaN

definition signed_inf :: "real \<Rightarrow> float64" where
  "signed_inf s = (if 0 < s then PInf else if s < 0 then NInf else NaN)"

fun fmul :: "float64 \<Rightarrow> float64 \<Rightarrow> float64" where
  "fmul (Fin a) (Fin b) = Fin (a * b)"
| "fmul NaN y = NaN"
| "fmul x NaN = NaN"
| "fmul (Fin a) PInf = signed_inf a"
| "fmul (Fin a) NInf = signed_inf (- a)"
| "fmul PInf (Fin b) = signed_inf b"
| "fmul NInf (Fin b) = signed_inf (- b)"
| "fmul PInf PInf = PInf"
| "fmul PInf NInf = NInf"
| "fmul NInf PInf = NInf"
| "fmul NInf NInf = PInf"

fun fsub :: "float64 \<Rightarrow> float64 \<Rightarrow> float64" where
  "fsub (Fin a) (Fin b) = Fin (a - b)"
| "fsub NaN y = NaN"
| "fsub x NaN = NaN"
| "fsub (Fin a) PInf = NInf"
| "fsub (Fin a) NInf = PInf"
| "fsub PInf (Fin b) = PInf"
| "fsub NInf (Fin b) = NInf"
| "fsub PInf PInf = NaN"
| "fsub PInf NInf = PInf"
| "fsub NInf PInf = NInf"
| "fsub NInf NInf = NaN"

fun fdiv :: "float64 \<Rightarrow> float64 \<Rightarrow> float64" where
  "fdiv (Fin a) (Fin b) = (if b = 0 then signed_inf a else Fin (a / b))"
| "fdiv NaN y = NaN"
| "fdiv x NaN = NaN"
| "fdiv (Fin a) PInf = Fin 0"
| "fdiv (Fin a) NInf = Fin 0"
| "fdiv PInf (Fin b) = (if 0 \<le> b then PInf else NInf)"
| "fdiv NInf (Fin b) = (if 0 \<le> b then NInf else PInf)"
| "fdiv PInf PInf = NaN"
| "fdiv PInf NInf = NaN"
| "fdiv NInf PInf = NaN"
| "fdiv NInf NInf = NaN"

fun fsqrt :: "float64 \<Rightarrow> float64" where
  "fsqrt (Fin a) = (if 0 \<le> a then Fin (sqrt a) else NaN)"
| "fsqrt PInf = PInf"
| "fsqrt NInf = NaN"
| "fsqrt NaN = NaN"

text \<open>
  \<^verbatim>\<open>Series.value_counts()\<close>: the non-null values with their frequencies, most
  frequent first. Values of equal frequency keep the order of their first
  appearance.
\<close>

definition value_counts :: "string option list \<Rightarrow> (string \<times> nat) list" where
  "value_counts col =
     (let vs = dropna col
      in sort_key (\<lambda>(a, c). - int c) (map (\<lambda>a. (a, count_list vs a)) (unique vs)))"

record diagnosis_row =
  d_AnswerText :: string
  d_count :: nat
  PrevalenceRate :: float64
  Percentage :: float64
  CI_pct :: float64

text \<open>Lines 199 to 201: the non-null answers to \<open>q1\<close> in the wave 2016.\<close>

definition respondents :: "survey_table \<Rightarrow> int \<Rightarrow> nat" where
  "respondents df q1 =
     length (dropna (map AnswerText (filter (\<lambda>r. QuestionID r = q1 \<and> SurveyID r = 2016) df)))"

text \<open>Lines 203 to 205.\<close>

definition top_3_diagnoses :: "survey_table \<Rightarrow> int \<Rightarrow> (string \<times> nat) list" where
  "top_3_diagnoses df q2 =
     take 3 (value_counts (map AnswerText (filter (\<lambda>r. QuestionID r = q2) df)))"

text \<open>Lines 206 to 218, the three added columns.\<close>

definition create_prevalence_barplot :: "survey_table \<Rightarrow> int \<Rightarrow> int \<Rightarrow> diagnosis_row list" where
  "create_prevalence_barplot df q1 q2 =
     map (\<lambda>(a, c).
            let rate = fdiv (Fin (real c)) (Fin (real (respondents df q1)))
            in \<lparr>d_AnswerText = a, d_count = c,
                PrevalenceRate = rate,
                Percentage = fmul rate (Fin 100),
                CI_pct =
                  fmul
                    (fmul (Fin 1.6456)
                       (fsqrt (fdiv (fmul rate (fsub (Fin 1) rate)) (Fin (real (respondents df q1))))))
                    (Fin 100)\<rparr>)
       (top_3_diagnoses df q2)"

text \<open>
  The Prevalence Estimator in the words of the specification (section 4.5): the
  survey wave of the denominator, the number \<open>n\<close> of top categories and the
  confidence multiplier \<open>z\<close> are inputs, and a denominator of 0 is a domain error.
\<close>

datatype domain_error = NoRespondents

definition prevalence_estimator ::
  "survey_table \<Rightarrow> int \<Rightarrow> int \<Rightarrow> int \<Rightarrow> nat \<Rightarrow> real \<Rightarrow> domain_error + diagnosis_row list" where
  "prevalence_estimator df reference target wave n z =
     (let denominator =
            length (filter (\<lambda>r. QuestionID r = reference \<and> SurveyID r = wave \<and> AnswerText r \<noteq> None) df)
      in if denominator = 0 then Inl NoRespondents
         else Inr (map (\<lambda>(category, count).
                          let rate = fdiv (Fin (real count)) (Fin (real denominator))
                          in \<lparr>d_AnswerText = category, d_count = count,
                              PrevalenceRate = rate,
                              Percentage = fmul rate (Fin 100),
                              CI_pct =
                                fmul
                                  (fmul (Fin z)
                                     (fsqrt (fdiv (fmul rate (fsub (Fin 1) rate))
                                        (Fin (real denominator)))))
                                  (Fin 100)\<rparr>)
                     (take n (value_counts (map AnswerText (filter (\<lambda>r. QuestionID r = target) df))))))"

text \<open>The number of rows of a question with a given answer.\<close>

definition target_count :: "survey_table \<Rightarrow> int \<Rightarrow> string \<Rightarrow> nat" where
  "target_count df q2 a = length (filter (\<lambda>r. QuestionID r = q2 \<and> AnswerText r = Some a) df)"

subsection \<open>Answer coercion: \<^verbatim>\<open>text_to_num_mapping\<close>\<close>

text \<open>
  The dictionary, entry by entry. A key is an answer text or \<^verbatim>\<open>None\<close>, a value is
  a number or \<^verbatim>\<open>None\<close>.
\<close>

definition text_to_num_mapping :: "(string option \<times> real option) list" where
  "text_to_num_mapping =
     [(Some ''Yes'', Some 1),
      (Some ''Yes, all of them'', Some 1),
      (Some ''No'', Some 0),
      (Some ''None of them'', Some 0),
      (Some ''Some did'', Some 0.5),
      (Some ''Some of them'', Some 0.5),
      (Some ''Maybe'', Some 0.5),
      (None, None)]"

text \<open>
  \<^verbatim>\<open>Series.map(text_to_num_mapping)\<close> at one text answer: the value of the key, and
  NaN for an answer that is not a key. The value \<^verbatim>\<open>None\<close> is NaN in the result.
\<close>

definition series_map :: "string option \<Rightarrow> real option" where
  "series_map a = (case map_of text_to_num_mapping a of None \<Rightarrow> None | Some v \<Rightarrow> v)"

text \<open>
  \<^verbatim>\<open>str.isnumeric()\<close> on ASCII text: a non-empty string of decimal digits. The
  numeric characters outside ASCII are not modelled.
\<close>

definition isnumeric :: "string \<Rightarrow> bool" where
  "isnumeric s \<longleftrightarrow> s \<noteq> [] \<and> list_all (\<lambda>c. c \<in> set ''0123456789'') s"

subsection \<open>Coercion before the correlation: \<^verbatim>\<open>create_correlation_heatmap\<close>\<close>

text \<open>
  A cell of the wide table is a text, a number or a missing value. The table is
  the list of its columns, whose names are taken to be distinct.
\<close>

datatype cell = Str string | Num real | Null

type_synonym wide_table = "(string \<times> cell list) list"

datatype py_error = KeyError | ValueError | TypeError

text \<open>
  \<^verbatim>\<open>df[col].map(text_to_num_mapping)\<close> at one cell. A number is equal to no key
  of the dictionary. The mapped column is a float64 column.
\<close>

definition map_cell :: "cell \<Rightarrow> real option" where
  "map_cell c =
     (case c of Str s \<Rightarrow> series_map (Some s) | Null \<Rightarrow> series_map None | Num x \<Rightarrow> None)"

text \<open>
  \<^verbatim>\<open>.convert_dtypes()\<close> on the mapped column: the nullable integer type when
  every mapped value that is present is a whole number, also when none is
  present, and the nullable float type otherwise.
\<close>

datatype nullable_dtype = Int64 | Float64

definition is_whole :: "real \<Rightarrow> bool" where
  "is_whole x \<longleftrightarrow> \<lfloor>x\<rfloor> = \<lceil>x\<rceil>"

definition convert_dtypes :: "real option list \<Rightarrow> nullable_dtype" where
  "convert_dtypes mapped = (if list_all is_whole (dropna mapped) then Int64 else Float64)"

text \<open>
  \<^verbatim>\<open>.fillna(df[col])\<close> on the converted column. The cells of the original
  column at the rows where the mapped value is missing are written into the
  nullable column, and pandas casts them to its type in one step. What follows
  is that cast, as pandas 2 has it for a masked array. The conversions of a text
  by Python's \<^verbatim>\<open>int\<close> and \<^verbatim>\<open>float\<close> are the parameters \<open>int_of\<close> and
  \<open>float_of\<close>, which return nothing where Python raises \<^verbatim>\<open>ValueError\<close>.
  \<^item> Into Int64: a text that \<^verbatim>\<open>int\<close> rejects raises \<^verbatim>\<open>ValueError\<close>. Numbers
    must be whole and must not come mixed with texts, otherwise the cast is not
    safe and raises \<^verbatim>\<open>TypeError\<close>.
  \<^item> Into Float64: a text that \<^verbatim>\<open>float\<close> rejects raises \<^verbatim>\<open>ValueError\<close>.
  A missing cell stays missing. Nothing is cast when no mapped value is missing.
\<close>

definition fill_cells :: "cell list \<Rightarrow> cell list" where
  "fill_cells col = filter (\<lambda>c. map_cell c = None) col"

fun texts :: "cell list \<Rightarrow> string list" where
  "texts [] = []"
| "texts (Str s # cs) = s # texts cs"
| "texts (c # cs) = texts cs"

fun numbers :: "cell list \<Rightarrow> real list" where
  "numbers [] = []"
| "numbers (Num x # cs) = x # numbers cs"
| "numbers (c # cs) = numbers cs"

definition cast_error ::
  "(string \<Rightarrow> int option) \<Rightarrow> (string \<Rightarrow> real option) \<Rightarrow> nullable_dtype \<Rightarrow> cell list \<Rightarrow>
   py_error option" where
  "cast_error int_of float_of dtype cs =
     (case dtype of
        Int64 \<Rightarrow>
          if list_ex (\<lambda>s. int_of s = None) (texts cs) then Some ValueError
          else if numbers cs \<noteq> [] \<and> (texts cs \<noteq> [] \<or> list_ex (\<lambda>x. \<not> is_whole x) (numbers cs))
          then Some TypeError
          else None
      | Float64 \<Rightarrow>
          if list_ex (\<lambda>s. float_of s = None) (texts cs) then Some ValueError else None)"

definition cast_cell ::
  "(string \<Rightarrow> int option) \<Rightarrow> (string \<Rightarrow> real option) \<Rightarrow> nullable_dtype \<Rightarrow> cell \<Rightarrow> cell" where
  "cast_cell int_of float_of dtype c =
     (case c of
        Str s \<Rightarrow>
          (case dtype of
             Int64 \<Rightarrow> (case int_of s of None \<Rightarrow> Null | Some n \<Rightarrow> Num (real_of_int n))
           | Float64 \<Rightarrow> (case float_of s of None \<Rightarrow> Null | Some x \<Rightarrow> Num x))
      | Num x \<Rightarrow> Num x
      | Null \<Rightarrow> Null)"

text \<open>
  Line 249: \<^verbatim>\<open>df[col].map(text_to_num_mapping).convert_dtypes().fillna(df[col])\<close>,
  the new value of one column, or the exception of the cast.
\<close>

definition mapping_pass ::
  "(string \<Rightarrow> int option) \<Rightarrow> (string \<Rightarrow> real option) \<Rightarrow> cell list \<Rightarrow> py_error + cell list" where
  "mapping_pass int_of float_of col =
     (let dtype = convert_dtypes (map map_cell col) in
      case cast_error int_of float_of dtype (fill_cells col) of
        Some e \<Rightarrow> Inl e
      | None \<Rightarrow>
          Inr (map (\<lambda>c. case map_cell c of
                           None \<Rightarrow> cast_cell int_of float_of dtype c
                         | Some v \<Rightarrow> Num v) col))"

text \<open>
  \<^verbatim>\<open>pd.to_numeric(..., errors="coerce")\<close> at one cell; the parser of
  \<^verbatim>\<open>pd.to_numeric\<close> for text is the parameter \<open>parse\<close>.
\<close>

definition to_numeric :: "(string \<Rightarrow> real option) \<Rightarrow> cell \<Rightarrow> real option" where
  "to_numeric parse c = (case c of Str s \<Rightarrow> parse s | Num x \<Rightarrow> Some x | Null \<Rightarrow> None)"

text \<open>
  The loop of lines 248 and 249 over the columns: the first exception ends the
  function.
\<close>

fun coerce_columns ::
  "(string \<Rightarrow> int option) \<Rightarrow> (string \<Rightarrow> real option) \<Rightarrow> wide_table \<Rightarrow> py_error + wide_table" where
  "coerce_columns int_of float_of [] = Inr []"
| "coerce_columns int_of float_of ((name, col) # rest) =
     (case mapping_pass int_of float_of col of
        Inl e \<Rightarrow> Inl e
      | Inr new \<Rightarrow>
         (case coerce_columns int_of float_of rest of
            Inl e \<Rightarrow> Inl e
          | Inr t \<Rightarrow> Inr ((name, new) # t)))"

text \<open>
  Lines 247 to 250: the numeric table the correlation is computed from, or the
  exception raised on the way. The correlation itself and the mask are not
  modelled.
\<close>

definition create_correlation_heatmap ::
  "(string \<Rightarrow> int option) \<Rightarrow> (string \<Rightarrow> real option) \<Rightarrow> (string \<Rightarrow> real option) \<Rightarrow> wide_table \<Rightarrow>
   py_error + (string \<times> real option list) list" where
  "create_correlation_heatmap int_of float_of parse df =
     (case coerce_columns int_of float_of df of
        Inl e \<Rightarrow> Inl e
      | Inr t \<Rightarrow> Inr (map (\<lambda>(name, col). (name, map (to_numeric parse) col)) t))"

text \<open>
  The two-pass policy in the words of the specification (section 4.6): the
  mapped value where the mapping gives one, else the numeric parse of the
  original cell, which is missing when it does not parse. It has no exception.
\<close>

definition two_pass_policy :: "(string \<Rightarrow> real option) \<Rightarrow> cell list \<Rightarrow> real option list" where
  "two_pass_policy parse col =
     map (\<lambda>c. case map_cell c of None \<Rightarrow> to_numeric parse c | Some v \<Rightarrow> Some v) col"

subsection \<open>Coercion for the violin plots: \<^verbatim>\<open>create_violin_subplots\<close>\<close>

text \<open>
  The wide table of this function has one column of text answers per question
  id and the respondents as its index.
\<close>

record wide_frame =
  w_index :: "int list"
  w_columns :: "int \<rightharpoonup> string option list"

text \<open>
  \<^verbatim>\<open>df.reset_index().melt(id_vars="UserID", value_vars=[q1, q2], ...)\<close>: the rows
  of column \<open>q1\<close> followed by the rows of column \<open>q2\<close>, each with its respondent and
  its question id. A question id that is not a column raises \<^verbatim>\<open>KeyError\<close>.
\<close>

definition melt :: "wide_frame \<Rightarrow> int \<Rightarrow> int \<Rightarrow> py_error + (int \<times> int \<times> string option) list" where
  "melt df q1 q2 =
     (case w_columns df q1 of
        None \<Rightarrow> Inl KeyError
      | Some c1 \<Rightarrow>
         (case w_columns df q2 of
            None \<Rightarrow> Inl KeyError
          | Some c2 \<Rightarrow>
              Inr (map (\<lambda>(u, a). (u, q1, a)) (zip (w_index df) c1) @
                   map (\<lambda>(u, a). (u, q2, a)) (zip (w_index df) c2))))"

text \<open>
  Lines 291 to 298 on the melted answer column. \<^verbatim>\<open>.str.isnumeric().all()\<close>
  skips the null answers. The result is the name of the column that is plotted
  and its values.
\<close>

definition coerce_answers ::
  "(string \<Rightarrow> real option) \<Rightarrow> string option list \<Rightarrow> string \<times> real option list" where
  "coerce_answers parse answers =
     (if list_all isnumeric (dropna answers)
      then (''AnswerText'', map (\<lambda>a. case a of None \<Rightarrow> None | Some s \<Rightarrow> parse s) answers)
      else (''AnswerNumeric'', map series_map answers))"

record violin_data =
  v_UserID :: "int list"
  v_QuestionID :: "int list"
  v_Label :: "string option list"
  y_column :: string
  y_values :: "real option list"

definition violin_pair ::
  "(string \<Rightarrow> real option) \<Rightarrow> (int \<rightharpoonup> string) \<Rightarrow> wide_frame \<Rightarrow> int \<times> int \<Rightarrow> py_error + violin_data" where
  "violin_pair parse question_labels df pair =
     (case melt df (fst pair) (snd pair) of
        Inl e \<Rightarrow> Inl e
      | Inr temp_df \<Rightarrow>
          (let y = coerce_answers parse (map (\<lambda>(u, q, a). a) temp_df)
           in Inr \<lparr>v_UserID = map (\<lambda>(u, q, a). u) temp_df,
                   v_QuestionID = map (\<lambda>(u, q, a). q) temp_df,
                   v_Label = map (\<lambda>(u, q, a). question_labels q) temp_df,
                   y_column = fst y, y_values = snd y\<rparr>))"

text \<open>The loop over the question pairs; the first exception ends it.\<close>

fun create_violin_subplots ::
  "(string \<Rightarrow> real option) \<Rightarrow> (int \<times> int) list \<Rightarrow> (int \<rightharpoonup> string) \<Rightarrow> wide_frame \<Rightarrow>
   py_error + violin_data list" where
  "create_violin_subplots parse [] question_labels df = Inr []"
| "create_violin_subplots parse (pair # question_pairs) question_labels df =
     (case violin_pair parse question_labels df pair of
        Inl e \<Rightarrow> Inl e
      | Inr v \<Rightarrow>
         (case create_violin_subplots parse question_pairs question_labels df of
            Inl e \<Rightarrow> Inl e
          | Inr vs \<Rightarrow> Inr (v # vs)))"

subsection \<open>The tables as objects of a store\<close>

text \<open>
  The functions receive a reference to a DataFrame, and an assignment
  \<^verbatim>\<open>frame[col] = values\<close> changes the object that \<^verbatim>\<open>frame\<close> refers to. To
  follow which object an assignment changes, the tables live in a store: a list
  of frames, addressed by position. A pandas operation that returns a new object
  (a row selection \<^verbatim>\<open>df[mask]\<close>, \<^verbatim>\<open>copy\<close>, \<^verbatim>\<open>groupby(...).size()\<close>,
  \<^verbatim>\<open>reset_index\<close>, \<^verbatim>\<open>pivot_table\<close>, \<^verbatim>\<open>div\<close>, \<^verbatim>\<open>melt\<close>, \<^verbatim>\<open>apply\<close>) appends a
  frame; a column assignment replaces the frame at the address assigned to.
\<close>

datatype frame =
    SurveyFrame survey_table
  | NumericFrame data_frame
  | CellFrame wide_table
  | TextFrame wide_frame
  | CountsFrame "(int \<times> string \<times> nat) list"
  | GenderFrame "gender_row list"
  | PivotFrame pivoted
  | TopFrame "(string \<times> nat) list"
  | DiagnosisFrame "diagnosis_row list"
  | CoercedFrame "(string \<times> real option list) list"
  | MeltedFrame "(int \<times> int \<times> string option) list"
  | ViolinFrame violin_data

type_synonym store = "frame list"

definition deref :: "store \<Rightarrow> nat \<Rightarrow> frame option" where
  "deref h a = (if a < length h then Some (h ! a) else None)"

definition new_frame :: "store \<Rightarrow> frame \<Rightarrow> nat \<times> store" where
  "new_frame h v = (length h, h @ [v])"

definition setitem :: "store \<Rightarrow> nat \<Rightarrow> frame \<Rightarrow> store" where
  "setitem h a v = h[a := v]"

text \<open>\<^verbatim>\<open>find_outliers\<close> reads columns of \<^verbatim>\<open>df\<close> and assigns to no frame.\<close>

definition find_outliers_store ::
  "store \<Rightarrow> nat \<Rightarrow> string list \<Rightarrow> store \<times> (int list \<times> message list) option" where
  "find_outliers_store h df features =
     (case deref h df of
        Some (NumericFrame t) \<Rightarrow> (h, Some (find_outliers t features))
      | _ \<Rightarrow> (h, None))"

text \<open>
  \<^verbatim>\<open>create_age_histplot\<close>, lines 73 to 76: \<^verbatim>\<open>age_df\<close> is a row selection of
  \<^verbatim>\<open>df\<close>, the rows of question 1 whose answer is a number from 18 to 64.
\<close>

definition age_df :: "(string \<Rightarrow> real option) \<Rightarrow> survey_table \<Rightarrow> survey_table" where
  "age_df parse df =
     filter (\<lambda>r. QuestionID r = 1 \<and>
                 (case AnswerText r of
                    None \<Rightarrow> False
                  | Some s \<Rightarrow> (case parse s of None \<Rightarrow> False | Some x \<Rightarrow> 18 \<le> x \<and> x \<le> 64))) df"

definition create_age_histplot_store ::
  "(string \<Rightarrow> real option) \<Rightarrow> store \<Rightarrow> nat \<Rightarrow> store \<times> nat list" where
  "create_age_histplot_store parse h df =
     (case deref h df of
        Some (SurveyFrame t) \<Rightarrow>
          (let (age, h1) = new_frame h (SurveyFrame (age_df parse t)) in (h1, [age]))
      | _ \<Rightarrow> (h, []))"

text \<open>
  \<^verbatim>\<open>create_gender_barplot\<close>, lines 106 to 114. The assignment of line 114 is to
  \<^verbatim>\<open>gender_counts\<close>.
\<close>

definition create_gender_barplot_store :: "store \<Rightarrow> nat \<Rightarrow> store \<times> nat list" where
  "create_gender_barplot_store h df =
     (case deref h df of
        Some (SurveyFrame t) \<Rightarrow>
          (let (gender_df, h1) = new_frame h (SurveyFrame (filter (\<lambda>r. QuestionID r = 2) t));
               (gender_counts, h2) =
                 new_frame h1
                   (CountsFrame (sort_key (\<lambda>(y, a, c). (y, a))
                      (group_size (filter (\<lambda>r. QuestionID r = 2) t))));
               h3 = setitem h2 gender_counts (GenderFrame (create_gender_barplot t))
           in (h3, [gender_counts]))
      | _ \<Rightarrow> (h, []))"

text \<open>
  \<^verbatim>\<open>create_lineplot\<close>, lines 163 to 171, for one question id: four new frames
  and no assignment.
\<close>

definition lineplot_step :: "survey_table \<Rightarrow> store \<times> nat list \<Rightarrow> int \<Rightarrow> store \<times> nat list" where
  "lineplot_step t st question_id =
     (let (curr_df, h1) =
            new_frame (fst st) (SurveyFrame (filter (\<lambda>r. QuestionID r = question_id) t));
          (df_counts, h2) =
            new_frame h1 (CountsFrame (group_size (filter (\<lambda>r. QuestionID r = question_id) t)));
          (df_pivoted, h3) =
            new_frame h2
              (PivotFrame (pivot_table (group_size (filter (\<lambda>r. QuestionID r = question_id) t))));
          (df_pivoted_pct, h4) = new_frame h3 (PivotFrame (pivoted_pct t question_id))
      in (h4, snd st @ [df_pivoted_pct]))"

definition create_lineplot_store :: "store \<Rightarrow> nat \<Rightarrow> int list \<Rightarrow> store \<times> nat list" where
  "create_lineplot_store h df questions =
     (case deref h df of
        Some (SurveyFrame t) \<Rightarrow> foldl (lineplot_step t) (h, []) (take 2 questions)
      | _ \<Rightarrow> (h, []))"

text \<open>
  \<^verbatim>\<open>create_prevalence_barplot\<close>, lines 199 to 218. The three column
  assignments are all to \<^verbatim>\<open>top_3_diagnoses\<close> and are taken as one update.
\<close>

definition create_prevalence_barplot_store :: "store \<Rightarrow> nat \<Rightarrow> int \<Rightarrow> int \<Rightarrow> store \<times> nat list" where
  "create_prevalence_barplot_store h df q1 q2 =
     (case deref h df of
        Some (SurveyFrame t) \<Rightarrow>
          (let (top_3, h1) = new_frame h (TopFrame (top_3_diagnoses t q2));
               h2 = setitem h1 top_3 (DiagnosisFrame (create_prevalence_barplot t q1 q2))
           in (h2, [top_3]))
      | _ \<Rightarrow> (h, []))"

text \<open>
  \<^verbatim>\<open>create_correlation_heatmap\<close>, lines 247 to 250. The name \<^verbatim>\<open>df\<close> is bound
  to the copy before the loop, so the assignments \<^verbatim>\<open>df[col] = ...\<close> are to the
  copy. \<^verbatim>\<open>df.apply\<close> returns a new frame.
\<close>

definition set_column :: "wide_table \<Rightarrow> string \<Rightarrow> cell list \<Rightarrow> wide_table" where
  "set_column t col vs = map (\<lambda>(name, old). if name = col then (name, vs) else (name, old)) t"

definition get_column :: "wide_table \<Rightarrow> string \<Rightarrow> cell list" where
  "get_column t col = (case map_of t col of None \<Rightarrow> [] | Some vs \<Rightarrow> vs)"

text \<open>
  The loop of lines 248 and 249 on the frame at \<open>df\<close>; an exception ends it and
  leaves the assignments made so far.
\<close>

fun heatmap_loop ::
  "(string \<Rightarrow> int option) \<Rightarrow> (string \<Rightarrow> real option) \<Rightarrow> nat \<Rightarrow> store \<Rightarrow> string list \<Rightarrow>
   store \<times> py_error option" where
  "heatmap_loop int_of float_of df h [] = (h, None)"
| "heatmap_loop int_of float_of df h (col # cols) =
     (case deref h df of
        Some (CellFrame t) \<Rightarrow>
          (case mapping_pass int_of float_of (get_column t col) of
             Inl e \<Rightarrow> (h, Some e)
           | Inr new \<Rightarrow>
               heatmap_loop int_of float_of df (setitem h df (CellFrame (set_column t col new))) cols)
      | _ \<Rightarrow> (h, None))"

definition create_correlation_heatmap_store ::
  "(string \<Rightarrow> int option) \<Rightarrow> (string \<Rightarrow> real option) \<Rightarrow> (string \<Rightarrow> real option) \<Rightarrow> store \<Rightarrow> nat \<Rightarrow>
   store \<times> nat list" where
  "create_correlation_heatmap_store int_of float_of parse h df =
     (case deref h df of
        Some (CellFrame t) \<Rightarrow>
          (let (df1, h1) = new_frame h (CellFrame t) in
           case heatmap_loop int_of float_of df1 h1 (map fst t) of
             (h2, Some e) \<Rightarrow> (h2, [])
           | (h2, None) \<Rightarrow>
               (let (df2, h3) =
                      new_frame h2
                        (case deref h2 df1 of
                           Some (CellFrame t') \<Rightarrow>
                             CoercedFrame
                               (map (\<lambda>(name, col). (name, map (to_numeric parse) col)) t')
                         | _ \<Rightarrow> CoercedFrame [])
                in (h3, [df2])))
      | _ \<Rightarrow> (h, []))"

text \<open>
  \<^verbatim>\<open>create_violin_subplots\<close>, lines 282 to 298, for one pair: \<^verbatim>\<open>reset_index\<close>
  and \<^verbatim>\<open>melt\<close> each return a new frame, and the assignments of the columns
  Label and AnswerText or AnswerNumeric are to \<^verbatim>\<open>temp_df\<close>.
\<close>

definition violin_step ::
  "(string \<Rightarrow> real option) \<Rightarrow> (int \<rightharpoonup> string) \<Rightarrow> wide_frame \<Rightarrow> store \<Rightarrow> int \<times> int \<Rightarrow>
   store \<times> (py_error + nat)" where
  "violin_step parse question_labels t h pair =
     (let (reset, h1) = new_frame h (TextFrame t) in
      case melt t (fst pair) (snd pair) of
        Inl e \<Rightarrow> (h1, Inl e)
      | Inr rows \<Rightarrow>
          (let (temp_df, h2) = new_frame h1 (MeltedFrame rows);
               h3 = (case violin_pair parse question_labels t pair of
                       Inl e \<Rightarrow> h2
                     | Inr v \<Rightarrow> setitem h2 temp_df (ViolinFrame v))
           in (h3, Inr temp_df)))"

fun violin_loop ::
  "(string \<Rightarrow> real option) \<Rightarrow> (int \<rightharpoonup> string) \<Rightarrow> wide_frame \<Rightarrow> store \<Rightarrow> (int \<times> int) list \<Rightarrow>
   store \<times> (py_error + nat list)" where
  "violin_loop parse question_labels t h [] = (h, Inr [])"
| "violin_loop parse question_labels t h (pair # question_pairs) =
     (case violin_step parse question_labels t h pair of
        (h1, Inl e) \<Rightarrow> (h1, Inl e)
      | (h1, Inr a) \<Rightarrow>
          (case violin_loop parse question_labels t h1 question_pairs of
             (h2, Inl e) \<Rightarrow> (h2, Inl e)
           | (h2, Inr as) \<Rightarrow> (h2, Inr (a # as))))"

definition create_violin_subplots_store ::
  "(string \<Rightarrow> real option) \<Rightarrow> store \<Rightarrow> (int \<times> int) list \<Rightarrow> (int \<rightharpoonup> string) \<Rightarrow> nat \<Rightarrow>
   store \<times> (py_error + nat list)" where
  "create_violin_subplots_store parse h question_pairs question_labels df =
     (case deref h df of
        Some (TextFrame t) \<Rightarrow> violin_loop parse question_labels t h question_pairs
      | _ \<Rightarrow> (h, Inr []))"

text \<open>
  A store extends another when it keeps every frame of it at its address; what
  it adds lies behind.
\<close>

definition extends :: "store \<Rightarrow> store \<Rightarrow> bool" where
  "extends h h' \<longleftrightarrow> take (length h) h' = h"

section \<open>Properties\<close>

subsection \<open>Series helpers\<close>

lemma set_append_new: "set (append_new acc vs) = set acc \<union> set vs"
  by (induction vs arbitrary: acc) auto

lemma distinct_append_new: "distinct acc \<Longrightarrow> distinct (append_new acc vs)"
  by (induction vs arbitrary: acc) auto

lemma append_new_append: "append_new (append_new acc xs) ys = append_new acc (xs @ ys)"
  by (induction xs arbitrary: acc) auto

lemma set_unique: "set (unique xs) = set xs"
  by (simp add: unique_def set_append_new)

lemma distinct_unique: "distinct (unique xs)"
  by (simp add: unique_def distinct_append_new)

lemma set_dropna: "set (dropna xs) = {x. Some x \<in> set xs}"
  by (induction xs rule: dropna.induct) auto

subsection \<open>Outlier detection\<close>

lemma set_feature_outliers_unique: "set (feature_outliers_unique col) = outlier_set col"
proof (cases "quantile col (1 / 4)")
  case None
  then show ?thesis
    by (simp add: feature_outliers_unique_def feature_outliers_def outlier_set_def unique_def)
next
  case q1: (Some q1)
  show ?thesis
  proof (cases "quantile col (3 / 4)")
    case None
    then show ?thesis
      by (simp add: feature_outliers_unique_def feature_outliers_def outlier_set_def unique_def q1)
  next
    case q3: (Some q3)
    show ?thesis
      by (auto simp: feature_outliers_unique_def feature_outliers_def outlier_set_def set_unique
          Let_def q1 q3)
  qed
qed

lemma find_outliers_loop_eq:
  "find_outliers_loop df fs (acc, out) =
     (append_new acc (concat (map (feature_values df) fs)), out @ map (feature_message df) fs)"
  by (induction fs arbitrary: acc out)
     (auto simp: feature_values_def feature_message_def append_new_append Let_def
       split: option.splits)

lemma find_outliers_eq:
  "find_outliers df fs =
     (unique (concat (map (feature_values df) fs)), map (feature_message df) fs)"
  by (simp add: find_outliers_def find_outliers_loop_eq unique_def)

lemma set_feature_values:
  "set (feature_values df f) = (case df f of None \<Rightarrow> {} | Some col \<Rightarrow> outlier_set col)"
  by (simp add: feature_values_def set_feature_outliers_unique split: option.splits)

text \<open>
  C6. The list returned by the Outlier Detector holds exactly the truncated
  values lying strictly outside the IQR bounds of the requested features that are
  columns of the table; it has no duplicates, and it lists the values in the order
  in which the features, and within a feature the rows, first produce them.
\<close>

theorem find_outliers_exact:
  "set (fst (find_outliers df features)) =
     (\<Union>f \<in> set features. case df f of None \<Rightarrow> {} | Some col \<Rightarrow> outlier_set col)
   \<and> distinct (fst (find_outliers df features))
   \<and> fst (find_outliers df features) = unique (concat (map (feature_values df) features))"
  by (simp add: find_outliers_eq set_unique distinct_unique set_feature_values)

theorem find_outliers_exact_witness:
  "(\<Union>f \<in> set [''a'', ''missing'', ''z''].
      case [''a'' \<mapsto> [Some 1, Some 2, Some 3, Some 4, Some 5, Some 100.7, None, Some (-50.5)],
            ''z'' \<mapsto> [Some 5, Some 5, Some 5, Some 5, Some 7, Some 100.2]] f of
        None \<Rightarrow> {} | Some col \<Rightarrow> outlier_set col) = {100, - 50}
   \<and> fst (find_outliers
        [''a'' \<mapsto> [Some 1, Some 2, Some 3, Some 4, Some 5, Some 100.7, None, Some (-50.5)],
         ''z'' \<mapsto> [Some 5, Some 5, Some 5, Some 5, Some 7, Some 100.2]]
        [''a'', ''missing'', ''z'']) = [100, - 50]"
proof -
  let ?df = "[''a'' \<mapsto> [Some 1, Some 2, Some 3, Some 4, Some 5, Some 100.7, None, Some (-50.5)],
              ''z'' \<mapsto> [Some 5, Some 5, Some 5, Some 5, Some 7, Some (100.2::real)]]"
  have run: "fst (find_outliers ?df [''a'', ''missing'', ''z'']) = [100, - 50]"
    by (simp add: find_outliers_def feature_outliers_unique_def feature_outliers_def quantile_def
        Let_def unique_def py_int_def)
  from find_outliers_exact [of ?df "[''a'', ''missing'', ''z'']"] run show ?thesis
    by (metis list.simps(15) insert_commute list.set(1))
qed

text \<open>
  C7. A requested feature that is not a column of the table is reported as not
  found and skipped: the list of outliers is the one obtained with that name
  removed from the request, and the messages for the other features are the same,
  with the report inserted at the position of the missing feature.
\<close>

theorem find_outliers_skips_missing:
  assumes "df bad = None"
  shows "fst (find_outliers df (xs @ bad # ys)) = fst (find_outliers df (xs @ ys))
   \<and> snd (find_outliers df (xs @ bad # ys)) =
       take (length xs) (snd (find_outliers df (xs @ ys))) @ FeatureNotFound bad #
       drop (length xs) (snd (find_outliers df (xs @ ys)))"
  using assms by (simp add: find_outliers_eq feature_values_def feature_message_def)

theorem find_outliers_skips_missing_witness:
  "[''a'' \<mapsto> [Some 1, Some 2, Some 3, Some 4, Some 5, Some (100.7::real)]] ''b'' = None
   \<and> fst (find_outliers [''a'' \<mapsto> [Some 1, Some 2, Some 3, Some 4, Some 5, Some 100.7]]
        ([''a''] @ ''b'' # [''a''])) = [100]
   \<and> snd (find_outliers [''a'' \<mapsto> [Some 1, Some 2, Some 3, Some 4, Some 5, Some 100.7]]
        ([''a''] @ ''b'' # [''a''])) =
       [UniqueOutliers ''a'' [100], FeatureNotFound ''b'', UniqueOutliers ''a'' [100]]"
proof -
  let ?df = "[''a'' \<mapsto> [Some 1, Some 2, Some 3, Some 4, Some 5, Some (100.7::real)]]"
  have none: "?df ''b'' = None" by simp
  have run: "find_outliers ?df ([''a''] @ [''a'']) =
      ([100], [UniqueOutliers ''a'' [100], UniqueOutliers ''a'' [100]])"
    by (simp add: find_outliers_def feature_outliers_unique_def feature_outliers_def quantile_def
        Let_def unique_def py_int_def)
  from find_outliers_skips_missing [of ?df "''b''" "[''a'']" "[''a'']"] none run show ?thesis
    by simp
qed

subsection \<open>Grouping and the distribution per wave\<close>

lemma group_keys_iff:
  "(y, a) \<in> set (group_keys df) \<longleftrightarrow> (\<exists>r \<in> set df. SurveyID r = y \<and> AnswerText r = Some a)"
proof -
  have eq: "\<And>s t. (Some (y, a) = map_option (Pair s) t) = (s = y \<and> t = Some a)"
    by (case_tac t) auto
  show ?thesis
    by (auto simp: group_keys_def set_dropna image_iff eq)
qed

lemma distinct_group_keys: "distinct (group_keys df)"
  by (simp add: group_keys_def)

lemma sorted_group_keys: "sorted (group_keys df)"
  by (simp add: group_keys_def)

lemma group_size_iff:
  "(y, a, c) \<in> set (group_size df) \<longleftrightarrow>
     (y, a) \<in> set (group_keys df) \<and> c = length (filter (\<lambda>r. SurveyID r = y \<and> AnswerText r = Some a) df)"
  by (auto simp: group_size_def)

lemma group_size_pos:
  assumes "(y, a, c) \<in> set (group_size df)"
  shows "0 < c"
proof -
  from assms have k: "(y, a) \<in> set (group_keys df)"
    and c: "c = length (filter (\<lambda>r. SurveyID r = y \<and> AnswerText r = Some a) df)"
    by (simp_all add: group_size_iff)
  from k obtain r where "r \<in> set df" "SurveyID r = y" "AnswerText r = Some a"
    by (auto simp: group_keys_iff)
  then have "filter (\<lambda>r. SurveyID r = y \<and> AnswerText r = Some a) df \<noteq> []"
    by (auto simp: filter_empty_conv)
  with c show ?thesis by simp
qed

lemma sum_list_pct:
  fixes s :: real
  shows "sum_list (map (\<lambda>(y, a, c). real c / s * 100) xs) =
         real (sum_list (map (\<lambda>(y, a, c). c) xs)) / s * 100"
  by (induction xs) (auto simp: add_divide_distrib distrib_right)

lemma gender_sum_pos:
  assumes "(y, a, c) \<in> set gc" "0 < c"
  shows "0 < gender_sum gc y"
proof -
  from assms(1) have "(y, a, c) \<in> set (filter (\<lambda>(y', a, c). y' = y) gc)" by simp
  then have "c \<in> set (map (\<lambda>(y', a, c). c) (filter (\<lambda>(y', a, c). y' = y) gc))"
    by force
  then have "c \<le> gender_sum gc y"
    unfolding gender_sum_def by (rule member_le_sum_list) simp
  with assms(2) show ?thesis by simp
qed

text \<open>
  C8. In the table of counts and percentages per survey wave, the percentages of
  the categories observed for one wave add up to 100. The arithmetic is exact in
  the model, so the sum is 100 itself.
\<close>

theorem gender_percentages_sum:
  assumes "y \<in> gc_SurveyID ` set (create_gender_barplot df)"
  shows "sum_list (map gc_Percentage
           (filter (\<lambda>row. gc_SurveyID row = y) (create_gender_barplot df))) = 100"
proof -
  define gc where "gc = sort_key (\<lambda>(y, a, c). (y, a)) (group_size (filter (\<lambda>r. QuestionID r = 2) df))"
  define mk where "mk = (\<lambda>(y, a, c). \<lparr>gc_SurveyID = y, gc_AnswerText = a, gc_Count = c,
                 gc_Percentage = real c / real (gender_sum gc y) * 100\<rparr>)"
  have rows: "create_gender_barplot df = map mk gc"
    by (simp add: create_gender_barplot_def Let_def gc_def mk_def)
  from assms obtain a c where mem: "(y, a, c) \<in> set gc"
    by (auto simp: rows mk_def)
  then have "(y, a, c) \<in> set (group_size (filter (\<lambda>r. QuestionID r = 2) df))"
    by (simp add: gc_def)
  then have "0 < c" by (rule group_size_pos)
  with mem have pos: "0 < gender_sum gc y" by (rule gender_sum_pos)
  have "filter (\<lambda>row. gc_SurveyID row = y) (map mk gc) = map mk (filter (\<lambda>(y', a, c). y' = y) gc)"
    by (induction gc) (auto simp: mk_def)
  moreover have "map gc_Percentage (map mk (filter (\<lambda>(y', a, c). y' = y) gc)) =
      map (\<lambda>(y', a, c). real c / real (gender_sum gc y) * 100) (filter (\<lambda>(y', a, c). y' = y) gc)"
    by (auto simp: mk_def)
  ultimately have "sum_list (map gc_Percentage (filter (\<lambda>row. gc_SurveyID row = y) (create_gender_barplot df)))
      = sum_list (map (\<lambda>(y', a, c). real c / real (gender_sum gc y) * 100) (filter (\<lambda>(y', a, c). y' = y) gc))"
    by (simp only: rows)
  also have "\<dots> = real (gender_sum gc y) / real (gender_sum gc y) * 100"
    by (simp only: sum_list_pct gender_sum_def)
  finally show ?thesis using pos by simp
qed

theorem gender_percentages_sum_witness:
  "2016 \<in> gc_SurveyID ` set (create_gender_barplot
      [\<lparr>UserID = 1, QuestionID = 2, AnswerText = Some ''Male'', SurveyID = 2016\<rparr>,
       \<lparr>UserID = 2, QuestionID = 2, AnswerText = Some ''Female'', SurveyID = 2016\<rparr>,
       \<lparr>UserID = 3, QuestionID = 2, AnswerText = Some ''Male'', SurveyID = 2016\<rparr>,
       \<lparr>UserID = 4, QuestionID = 2, AnswerText = None, SurveyID = 2016\<rparr>,
       \<lparr>UserID = 5, QuestionID = 1, AnswerText = Some ''33'', SurveyID = 2016\<rparr>,
       \<lparr>UserID = 1, QuestionID = 2, AnswerText = Some ''Male'', SurveyID = 2017\<rparr>])
   \<and> sum_list (map gc_Percentage (filter (\<lambda>row. gc_SurveyID row = 2016)
        [\<lparr>gc_SurveyID = 2016, gc_AnswerText = ''Female'', gc_Count = 1, gc_Percentage = 100 / 3\<rparr>,
         \<lparr>gc_SurveyID = 2016, gc_AnswerText = ''Male'', gc_Count = 2, gc_Percentage = 200 / 3\<rparr>,
         \<lparr>gc_SurveyID = 2017, gc_AnswerText = ''Male'', gc_Count = 1, gc_Percentage = 100\<rparr>]))
       = 100"
proof -
  let ?t = "[\<lparr>UserID = 1, QuestionID = 2, AnswerText = Some ''Male'', SurveyID = 2016\<rparr>,
       \<lparr>UserID = 2, QuestionID = 2, AnswerText = Some ''Female'', SurveyID = 2016\<rparr>,
       \<lparr>UserID = 3, QuestionID = 2, AnswerText = Some ''Male'', SurveyID = 2016\<rparr>,
       \<lparr>UserID = 4, QuestionID = 2, AnswerText = None, SurveyID = 2016\<rparr>,
       \<lparr>UserID = 5, QuestionID = 1, AnswerText = Some ''33'', SurveyID = 2016\<rparr>,
       \<lparr>UserID = 1, QuestionID = 2, AnswerText = Some ''Male'', SurveyID = 2017\<rparr>]"
  have run: "create_gender_barplot ?t =
       [\<lparr>gc_SurveyID = 2016, gc_AnswerText = ''Female'', gc_Count = 1, gc_Percentage = 100 / 3\<rparr>,
        \<lparr>gc_SurveyID = 2016, gc_AnswerText = ''Male'', gc_Count = 2, gc_Percentage = 200 / 3\<rparr>,
        \<lparr>gc_SurveyID = 2017, gc_AnswerText = ''Male'', gc_Count = 1, gc_Percentage = 100\<rparr>]"
    by (simp add: create_gender_barplot_def group_size_def group_keys_def gender_sum_def Let_def)
  have mem: "2016 \<in> gc_SurveyID ` set (create_gender_barplot ?t)"
    by (simp add: run)
  from gender_percentages_sum [of 2016 ?t] mem show ?thesis
    by (simp add: run)
qed

subsection \<open>The pivoted percentages\<close>

lemma filter_keyed:
  "distinct ks \<Longrightarrow>
   filter (\<lambda>(y', a', c). y' = y \<and> a' = a) (map (\<lambda>(y, a). (y, a, h y a)) ks) =
     (if (y, a) \<in> set ks then [(y, a, h y a)] else [])"
  by (induction ks) auto

lemma pivot_cell_group_size:
  "pivot_cell (group_size df) y a =
     (let n = length (filter (\<lambda>r. SurveyID r = y \<and> AnswerText r = Some a) df)
      in if n = 0 then None else Some (real n))"
proof -
  have "((y, a) \<in> set (group_keys df)) = (filter (\<lambda>r. SurveyID r = y \<and> AnswerText r = Some a) df \<noteq> [])"
    by (auto simp: group_keys_iff filter_empty_conv)
  moreover have "filter (\<lambda>(y', a', c). y' = y \<and> a' = a) (group_size df) =
      (if (y, a) \<in> set (group_keys df)
       then [(y, a, length (filter (\<lambda>r. SurveyID r = y \<and> AnswerText r = Some a) df))] else [])"
    unfolding group_size_def by (rule filter_keyed [OF distinct_group_keys])
  ultimately show ?thesis
    unfolding pivot_cell_def by (simp add: Let_def)
qed

lemma length_filter_question:
  "length (filter (\<lambda>r. SurveyID r = y \<and> AnswerText r = Some a) (filter (\<lambda>r. QuestionID r = q) df))
     = answer_count df q y a"
  by (simp add: answer_count_def conj_commute conj_left_commute)

lemma sum_indicator:
  "distinct xs \<Longrightarrow> sum_list (map (\<lambda>a. if k = a then 1 else 0) xs) = (if k \<in> set xs then 1 else (0::nat))"
  by (induction xs) auto

lemma count_by_category:
  assumes "distinct cols"
    and "\<And>r a. r \<in> set rs \<Longrightarrow> P r \<Longrightarrow> AnswerText r = Some a \<Longrightarrow> a \<in> set cols"
  shows "sum_list (map (\<lambda>a. length (filter (\<lambda>r. P r \<and> AnswerText r = Some a) rs)) cols) =
         length (filter (\<lambda>r. P r \<and> AnswerText r \<noteq> None) rs)"
  using assms(2)
proof (induction rs)
  case Nil
  then show ?case by simp
next
  case (Cons r rs)
  have IH: "sum_list (map (\<lambda>a. length (filter (\<lambda>r. P r \<and> AnswerText r = Some a) rs)) cols) =
         length (filter (\<lambda>r. P r \<and> AnswerText r \<noteq> None) rs)"
    by (rule Cons.IH) (auto intro: Cons.prems)
  have split: "\<And>a. length (filter (\<lambda>r. P r \<and> AnswerText r = Some a) (r # rs)) =
      (if P r \<and> AnswerText r = Some a then 1 else 0) + length (filter (\<lambda>r. P r \<and> AnswerText r = Some a) rs)"
    by simp
  have ind: "sum_list (map (\<lambda>a. if P r \<and> AnswerText r = Some a then 1 else 0) cols) =
      (if P r \<and> AnswerText r \<noteq> None then 1 else (0::nat))"
  proof (cases "P r \<and> AnswerText r \<noteq> None")
    case True
    then obtain b where b: "AnswerText r = Some b" by auto
    with True have "b \<in> set cols" by (auto intro: Cons.prems [of r b])
    moreover have "(\<lambda>a. if P r \<and> AnswerText r = Some a then 1 else (0::nat)) =
        (\<lambda>a. if b = a then 1 else 0)"
      using True b by auto
    ultimately show ?thesis
      using True sum_indicator [OF assms(1), of b] by simp
  next
    case False
    then have "(\<lambda>a. if P r \<and> AnswerText r = Some a then 1 else (0::nat)) = (\<lambda>a. 0)"
      by auto
    with False show ?thesis by simp
  qed
  show ?case
    by (simp only: split sum_list_addf ind IH) simp
qed

lemma nansum_pct:
  "nansum (map (map_option (\<lambda>c. c / s * 100)) row) = nansum row / s * 100"
  unfolding nansum_def
  by (induction row rule: dropna.induct) (simp_all add: add_divide_distrib distrib_right)

lemma nansum_counts:
  "nansum (map (\<lambda>a. if f a = 0 then None else Some (real (f a))) cols) = real (sum_list (map f cols))"
  unfolding nansum_def by (induction cols) simp_all


lemma set_group_size_waves:
  "set (map (\<lambda>(y, a, c). y) (group_size (filter (\<lambda>r. QuestionID r = q) df))) =
     {y. 0 < wave_count df q y}"
proof -
  have "\<And>y. (\<exists>a. (y, a) \<in> set (group_keys (filter (\<lambda>r. QuestionID r = q) df))) =
      (0 < wave_count df q y)"
    by (auto simp: group_keys_iff wave_count_def filter_empty_conv)
  then have "fst ` set (group_keys (filter (\<lambda>r. QuestionID r = q) df)) = {y. 0 < wave_count df q y}"
    by (auto simp: image_iff) force+
  moreover have "map (\<lambda>(y, a, c). y) (group_size (filter (\<lambda>r. QuestionID r = q) df)) =
      map fst (group_keys (filter (\<lambda>r. QuestionID r = q) df))"
    by (simp add: group_size_def case_prod_beta)
  ultimately show ?thesis by simp
qed

lemma set_group_size_categories:
  "set (map (\<lambda>(y, a, c). a) (group_size (filter (\<lambda>r. QuestionID r = q) df))) =
     {a. \<exists>y. 0 < answer_count df q y a}"
proof -
  have "\<And>a. (\<exists>y. (y, a) \<in> set (group_keys (filter (\<lambda>r. QuestionID r = q) df))) =
      (\<exists>y. 0 < answer_count df q y a)"
    by (auto simp: group_keys_iff answer_count_def filter_empty_conv)
  then have "snd ` set (group_keys (filter (\<lambda>r. QuestionID r = q) df)) =
      {a. \<exists>y. 0 < answer_count df q y a}"
    by (auto simp: image_iff) force+
  moreover have "map (\<lambda>(y, a, c). a) (group_size (filter (\<lambda>r. QuestionID r = q) df)) =
      map snd (group_keys (filter (\<lambda>r. QuestionID r = q) df))"
    by (simp add: group_size_def case_prod_beta)
  ultimately show ?thesis by simp
qed

lemma pivot_cell_question:
  "pivot_cell (group_size (filter (\<lambda>r. QuestionID r = q) df)) y a =
     (if answer_count df q y a = 0 then None else Some (real (answer_count df q y a)))"
  by (simp add: pivot_cell_group_size answer_count_def Let_def)

lemma row_total:
  assumes "distinct cols" and "{a. \<exists>y. 0 < answer_count df q y a} \<subseteq> set cols"
  shows "nansum (map (pivot_cell (group_size (filter (\<lambda>r. QuestionID r = q) df)) y) cols) =
         real (wave_count df q y)"
proof -
  have cover: "\<And>r a. r \<in> set df \<Longrightarrow> QuestionID r = q \<and> SurveyID r = y \<Longrightarrow>
      AnswerText r = Some a \<Longrightarrow> a \<in> set cols"
  proof -
    fix r a
    assume r: "r \<in> set df" "QuestionID r = q \<and> SurveyID r = y" "AnswerText r = Some a"
    then have "filter (\<lambda>r. QuestionID r = q \<and> SurveyID r = y \<and> AnswerText r = Some a) df \<noteq> []"
      by (auto simp: filter_empty_conv)
    then have "0 < answer_count df q y a" by (simp add: answer_count_def)
    with assms(2) show "a \<in> set cols" by auto
  qed
  have "sum_list (map (\<lambda>a. answer_count df q y a) cols) = wave_count df q y"
    unfolding answer_count_def wave_count_def
    using count_by_category [OF assms(1), of df "\<lambda>r. QuestionID r = q \<and> SurveyID r = y"] cover
    by (simp add: conj_assoc)
  moreover have "map (pivot_cell (group_size (filter (\<lambda>r. QuestionID r = q) df)) y) cols =
      map (\<lambda>a. if answer_count df q y a = 0 then None else Some (real (answer_count df q y a))) cols"
    by (simp add: pivot_cell_question)
  ultimately show ?thesis
    by (simp only: nansum_counts)
qed

lemma pivoted_pct_table:
  "sorted (p_index (pivoted_pct df q)) \<and> distinct (p_index (pivoted_pct df q))
   \<and> set (p_index (pivoted_pct df q)) = {y. 0 < wave_count df q y}
   \<and> sorted (p_columns (pivoted_pct df q)) \<and> distinct (p_columns (pivoted_pct df q))
   \<and> set (p_columns (pivoted_pct df q)) = {a. \<exists>y. 0 < answer_count df q y a}
   \<and> p_values (pivoted_pct df q) =
       map (\<lambda>y. map (\<lambda>a. if answer_count df q y a = 0 then None
                         else Some (real (answer_count df q y a) / real (wave_count df q y) * 100))
                  (p_columns (pivoted_pct df q)))
         (p_index (pivoted_pct df q))
   \<and> (\<forall>row \<in> set (p_values (pivoted_pct df q)). nansum row = 100)"
proof -
  define cnts where "cnts = group_size (filter (\<lambda>r. QuestionID r = q) df)"
  define idx where "idx = sort (remdups (map (\<lambda>(y, a, c). y) cnts))"
  define cols where "cols = sort (remdups (map (\<lambda>(y, a, c). a) cnts))"
  have P: "pivoted_pct df q =
      \<lparr>p_index = idx, p_columns = cols,
       p_values = map (\<lambda>y. row_pct (map (pivot_cell cnts y) cols)) idx\<rparr>"
    by (simp add: pivoted_pct_def pivot_table_def Let_def cnts_def idx_def cols_def o_def)
  have idx: "sorted idx" "distinct idx" "set idx = {y. 0 < wave_count df q y}"
    using set_group_size_waves [of q df] by (simp_all add: idx_def cnts_def)
  have cols: "sorted cols" "distinct cols" "set cols = {a. \<exists>y. 0 < answer_count df q y a}"
    using set_group_size_categories [of q df] by (simp_all add: cols_def cnts_def)
  have total: "\<And>y. nansum (map (pivot_cell cnts y) cols) = real (wave_count df q y)"
    unfolding cnts_def by (rule row_total) (simp_all add: cols)
  have row: "\<And>y. row_pct (map (pivot_cell cnts y) cols) =
      map (\<lambda>a. if answer_count df q y a = 0 then None
                else Some (real (answer_count df q y a) / real (wave_count df q y) * 100)) cols"
    unfolding row_pct_def total by (simp add: cnts_def pivot_cell_question)
  have sums: "\<And>y. y \<in> set idx \<Longrightarrow> nansum (row_pct (map (pivot_cell cnts y) cols)) = 100"
  proof -
    fix y assume "y \<in> set idx"
    then have "0 < wave_count df q y" by (simp add: idx)
    then show "nansum (row_pct (map (pivot_cell cnts y) cols)) = 100"
      unfolding row_pct_def nansum_pct total by simp
  qed
  show ?thesis
    unfolding P using idx cols sums by (simp add: row)
qed

text \<open>
  C2, as the code has it. The pivoted table of a question has one row per wave
  with an answer and one column per answer observed, both in ascending order. The
  cell of a wave and an answer that never occur together is missing (NaN): the
  pivot is built without a fill value and nothing replaces NaN afterwards. Every
  other cell is the count of the pair divided by the total of the wave, times
  100, and the cells present in a row add up to 100 within the floating-point
  tolerance, taken as \<open>1e-6\<close>. The arithmetic of the model is exact, so that
  the model meets the tolerance without error; the rounding of float64 is not
  part of it.
\<close>

theorem pivoted_pct_cells:
  "sorted (p_index (pivoted_pct df q)) \<and> distinct (p_index (pivoted_pct df q))
   \<and> set (p_index (pivoted_pct df q)) = {y. 0 < wave_count df q y}
   \<and> sorted (p_columns (pivoted_pct df q)) \<and> distinct (p_columns (pivoted_pct df q))
   \<and> set (p_columns (pivoted_pct df q)) = {a. \<exists>y. 0 < answer_count df q y a}
   \<and> p_values (pivoted_pct df q) =
       map (\<lambda>y. map (\<lambda>a. if answer_count df q y a = 0 then None
                         else Some (real (answer_count df q y a) / real (wave_count df q y) * 100))
                  (p_columns (pivoted_pct df q)))
         (p_index (pivoted_pct df q))
   \<and> (\<forall>row \<in> set (p_values (pivoted_pct df q)). \<bar>nansum row - 100\<bar> \<le> 1 / 10 ^ 6)"
  using pivoted_pct_table [of df q] by simp

theorem pivoted_pct_cells_witness:
  "pivoted_pct
        [\<lparr>UserID = 1, QuestionID = 1, AnswerText = Some ''Yes'', SurveyID = 2016\<rparr>,
         \<lparr>UserID = 2, QuestionID = 1, AnswerText = Some ''Yes'', SurveyID = 2016\<rparr>,
         \<lparr>UserID = 3, QuestionID = 1, AnswerText = Some ''Yes'', SurveyID = 2016\<rparr>,
         \<lparr>UserID = 4, QuestionID = 1, AnswerText = Some ''No'', SurveyID = 2016\<rparr>,
         \<lparr>UserID = 5, QuestionID = 1, AnswerText = Some ''No'', SurveyID = 2017\<rparr>] 1 =
       \<lparr>p_index = [2016, 2017], p_columns = [''No'', ''Yes''],
        p_values = [[Some 25, Some 75], [Some 100, None]]\<rparr>
   \<and> \<bar>nansum [Some 25, Some 75] - 100\<bar> \<le> 1 / 10 ^ 6
   \<and> \<bar>nansum [Some 100, None] - 100\<bar> \<le> 1 / 10 ^ 6"
proof -
  let ?t = "[\<lparr>UserID = 1, QuestionID = 1, AnswerText = Some ''Yes'', SurveyID = 2016\<rparr>,
         \<lparr>UserID = 2, QuestionID = 1, AnswerText = Some ''Yes'', SurveyID = 2016\<rparr>,
         \<lparr>UserID = 3, QuestionID = 1, AnswerText = Some ''Yes'', SurveyID = 2016\<rparr>,
         \<lparr>UserID = 4, QuestionID = 1, AnswerText = Some ''No'', SurveyID = 2016\<rparr>,
         \<lparr>UserID = 5, QuestionID = 1, AnswerText = Some ''No'', SurveyID = 2017\<rparr>]"
  have run: "pivoted_pct ?t 1 =
       \<lparr>p_index = [2016, 2017], p_columns = [''No'', ''Yes''],
        p_values = [[Some 25, Some 75], [Some 100, None]]\<rparr>"
    by (simp add: pivoted_pct_def pivot_table_def pivot_cell_def row_pct_def nansum_def
        group_size_def group_keys_def Let_def)
  from pivoted_pct_cells [of ?t 1]
  have "\<forall>row \<in> set (p_values (pivoted_pct ?t 1)). \<bar>nansum row - 100\<bar> \<le> 1 / 10 ^ 6"
    by blast
  then have "\<bar>nansum [Some 25, Some 75] - 100\<bar> \<le> 1 / 10 ^ 6
      \<and> \<bar>nansum [Some 100, None] - 100\<bar> \<le> 1 / 10 ^ 6"
    by (simp add: run)
  with run show ?thesis by blast
qed

text \<open>
  C2 as stated fails: a wave and an answer that never occur together give a
  missing cell, not the cell 0. Here 2016 has only the answer Yes and 2017 only
  the answer No.
\<close>

theorem pivot_absent_cell_counterexample:
  "create_lineplot
     [\<lparr>UserID = 1, QuestionID = 1, AnswerText = Some ''Yes'', SurveyID = 2016\<rparr>,
      \<lparr>UserID = 2, QuestionID = 1, AnswerText = Some ''No'', SurveyID = 2017\<rparr>] [1] =
     [\<lparr>p_index = [2016, 2017], p_columns = [''No'', ''Yes''],
       p_values = [[None, Some 100], [Some 100, None]]\<rparr>]
   \<and> p_values (hd (create_lineplot
     [\<lparr>UserID = 1, QuestionID = 1, AnswerText = Some ''Yes'', SurveyID = 2016\<rparr>,
      \<lparr>UserID = 2, QuestionID = 1, AnswerText = Some ''No'', SurveyID = 2017\<rparr>] [1])) ! 0 ! 0
       \<noteq> Some 0"
  by (simp add: create_lineplot_def pivoted_pct_def pivot_table_def pivot_cell_def row_pct_def
      nansum_def group_size_def group_keys_def Let_def)

subsection \<open>Prevalence rates\<close>

lemma count_list_answers:
  "count_list (dropna (map AnswerText (filter P df))) a =
     length (filter (\<lambda>r. P r \<and> AnswerText r = Some a) df)"
proof (induction df)
  case Nil
  then show ?case by simp
next
  case (Cons r df)
  then show ?case by (cases "AnswerText r") auto
qed

lemma length_dropna_answers:
  "length (dropna (map AnswerText (filter P df))) =
     length (filter (\<lambda>r. P r \<and> AnswerText r \<noteq> None) df)"
proof (induction df)
  case Nil
  then show ?case by simp
next
  case (Cons r df)
  then show ?case by (cases "AnswerText r") auto
qed

lemma set_value_counts:
  "set (value_counts col) = (\<lambda>a. (a, count_list (dropna col) a)) ` set (dropna col)"
  by (simp add: value_counts_def Let_def set_unique)

lemma value_counts_pos: "(a, c) \<in> set (value_counts col) \<Longrightarrow> 0 < c"
proof -
  assume "(a, c) \<in> set (value_counts col)"
  then have "a \<in> set (dropna col)" and c: "c = count_list (dropna col) a"
    by (auto simp: set_value_counts)
  then have "count_list (dropna col) a \<noteq> 0"
    by (simp add: count_list_0_iff)
  with c show ?thesis by simp
qed

lemma sorted_value_counts: "sorted (map (\<lambda>(a, c). - int c) (value_counts col))"
  by (simp add: value_counts_def Let_def)

lemma take_dominates_drop:
  assumes "sorted (map (\<lambda>(a, c). - int c) xs)"
    and "(a, c) \<in> set (take n xs)" and "(a', c') \<in> set (drop n xs)"
  shows "c' \<le> (c::nat)"
proof -
  have "sorted (map (\<lambda>(a, c). - int c) (take n xs) @ map (\<lambda>(a, c). - int c) (drop n xs))"
    using assms(1) by (simp flip: map_append)
  then have "\<forall>x \<in> set (map (\<lambda>(a, c). - int c) (take n xs)).
      \<forall>y \<in> set (map (\<lambda>(a, c). - int c) (drop n xs)). x \<le> y"
    by (simp add: sorted_append)
  with assms(2,3) have "- int c \<le> - int c'" by force
  then show ?thesis by simp
qed

lemma top_3_counts:
  "(a, c) \<in> set (top_3_diagnoses df q2) \<Longrightarrow> c = target_count df q2 a \<and> 0 < c"
proof -
  assume "(a, c) \<in> set (top_3_diagnoses df q2)"
  then have m: "(a, c) \<in> set (value_counts (map AnswerText (filter (\<lambda>r. QuestionID r = q2) df)))"
    unfolding top_3_diagnoses_def by (rule in_set_takeD)
  then have "c = count_list (dropna (map AnswerText (filter (\<lambda>r. QuestionID r = q2) df))) a"
    by (auto simp: set_value_counts)
  moreover from m have "0 < c" by (rule value_counts_pos)
  ultimately show ?thesis
    by (simp add: count_list_answers target_count_def)
qed

lemma respondents_eq:
  "respondents df q1 =
     length (filter (\<lambda>r. QuestionID r = q1 \<and> SurveyID r = 2016 \<and> AnswerText r \<noteq> None) df)"
  by (simp add: respondents_def length_dropna_answers conj_assoc)

lemma diagnosis_row_zero:
  assumes "0 < c"
  shows "fdiv (Fin (real c)) (Fin 0) = PInf"
    and "fmul (fmul (Fin z) (fsqrt (fdiv (fmul PInf (fsub (Fin 1) PInf)) (Fin 0)))) (Fin 100) = NaN"
  using assms by (simp_all add: signed_inf_def)

lemma diagnosis_row_finite:
  assumes "0 < d"
  shows "fdiv (Fin (real c)) (Fin (real d)) = Fin (real c / real d)"
    and "fmul (Fin (real c / real d)) (Fin 100) = Fin (real c / real d * 100)"
    and "fmul (fmul (Fin z)
           (fsqrt (fdiv (fmul (Fin (real c / real d)) (fsub (Fin 1) (Fin (real c / real d))))
              (Fin (real d))))) (Fin 100) =
         (if c \<le> d
          then Fin (z * sqrt (real c / real d * (1 - real c / real d) / real d) * 100)
          else NaN)"
proof -
  from assms show "fdiv (Fin (real c)) (Fin (real d)) = Fin (real c / real d)" by simp
  show "fmul (Fin (real c / real d)) (Fin 100) = Fin (real c / real d * 100)" by simp
  have sign: "(0 \<le> real c / real d * (1 - real c / real d) / real d) = (c \<le> d)"
  proof (cases "c \<le> d")
    case True
    with assms have "real c / real d \<le> 1" by simp
    then have "0 \<le> real c / real d * (1 - real c / real d)" by simp
    with True assms show ?thesis by simp
  next
    case False
    with assms have c: "0 < real c / real d" and "1 - real c / real d < 0" by simp_all
    then have "real c / real d * (1 - real c / real d) < 0"
      by (rule mult_pos_neg)
    moreover from assms have "0 < real d" by simp
    ultimately have "real c / real d * (1 - real c / real d) / real d < 0"
      by (rule divide_neg_pos)
    with False show ?thesis by simp
  qed
  from assms have "fdiv (fmul (Fin (real c / real d)) (fsub (Fin 1) (Fin (real c / real d)))) (Fin (real d))
      = Fin (real c / real d * (1 - real c / real d) / real d)"
    by simp
  then show "fmul (fmul (Fin z)
           (fsqrt (fdiv (fmul (Fin (real c / real d)) (fsub (Fin 1) (Fin (real c / real d))))
              (Fin (real d))))) (Fin 100) =
         (if c \<le> d
          then Fin (z * sqrt (real c / real d * (1 - real c / real d) / real d) * 100)
          else NaN)"
    by (simp only: fsqrt.simps sign) simp
qed

lemma dropna_replicate_Some: "dropna (replicate n (Some x)) = replicate n x"
  by (induction n) simp_all

lemma dropna_append: "dropna (xs @ ys) = dropna xs @ dropna ys"
  by (induction xs rule: dropna.induct) simp_all

lemma append_new_replicate: "append_new [x] (replicate n x) = [x]"
  by (induction n) simp_all

lemma unique_replicate: "0 < n \<Longrightarrow> unique (replicate n x) = [x]"
  by (cases n) (simp_all add: unique_def append_new_replicate)

lemma count_list_replicate: "count_list (replicate n x) x = n"
  by (induction n) simp_all

lemma sqrt_21_bounds: "4579 / 1000 < sqrt 21" "sqrt 21 < 4584 / 1000"
proof -
  show "4579 / 1000 < sqrt 21"
    by (rule real_less_rsqrt) (simp add: power2_eq_square)
  show "sqrt 21 < 4584 / 1000"
    by (rule real_less_lsqrt) (simp_all add: power2_eq_square)
qed

lemma sqrt_16: "sqrt 16 = 4"
  by (rule real_sqrt_unique) simp_all

text \<open>
  C1, as the code has it. The function has no guard on the denominator and
  raises nothing. When no non-null answer to the reference question exists in
  the wave 2016, it still returns one record for each of the top three
  categories: the division by zero gives the rate and the percentage \<open>+Inf\<close>,
  and the half-width, a square root of \<open>-Inf\<close>, is NaN.
\<close>

theorem prevalence_zero_denominator:
  assumes "respondents df q1 = 0"
  shows "create_prevalence_barplot df q1 q2 =
     map (\<lambda>(a, c). \<lparr>d_AnswerText = a, d_count = c, PrevalenceRate = PInf,
                      Percentage = PInf, CI_pct = NaN\<rparr>)
       (top_3_diagnoses df q2)"
  unfolding create_prevalence_barplot_def assms
proof (rule map_cong [OF refl])
  fix x assume x: "x \<in> set (top_3_diagnoses df q2)"
  obtain a c where ac: "x = (a, c)" by (cases x)
  with x have "0 < c" using top_3_counts by blast
  then show "(case x of (a, c) \<Rightarrow>
          let rate = fdiv (Fin (real c)) (Fin (real 0))
          in \<lparr>d_AnswerText = a, d_count = c, PrevalenceRate = rate,
                Percentage = fmul rate (Fin 100),
                CI_pct = fmul (fmul (Fin 1.6456)
                  (fsqrt (fdiv (fmul rate (fsub (Fin 1) rate)) (Fin (real 0))))) (Fin 100)\<rparr>) =
        (case x of (a, c) \<Rightarrow> \<lparr>d_AnswerText = a, d_count = c, PrevalenceRate = PInf,
                      Percentage = PInf, CI_pct = NaN\<rparr>)"
    by (simp add: ac Let_def signed_inf_def)
qed

theorem prevalence_zero_denominator_witness:
  "respondents
     [\<lparr>UserID = 1, QuestionID = 2, AnswerText = Some ''Anxiety'', SurveyID = 2016\<rparr>,
      \<lparr>UserID = 2, QuestionID = 2, AnswerText = Some ''Anxiety'', SurveyID = 2017\<rparr>,
      \<lparr>UserID = 2, QuestionID = 1, AnswerText = Some ''Yes'', SurveyID = 2017\<rparr>] 1 = 0
   \<and> create_prevalence_barplot
     [\<lparr>UserID = 1, QuestionID = 2, AnswerText = Some ''Anxiety'', SurveyID = 2016\<rparr>,
      \<lparr>UserID = 2, QuestionID = 2, AnswerText = Some ''Anxiety'', SurveyID = 2017\<rparr>,
      \<lparr>UserID = 2, QuestionID = 1, AnswerText = Some ''Yes'', SurveyID = 2017\<rparr>] 1 2 =
     [\<lparr>d_AnswerText = ''Anxiety'', d_count = 2, PrevalenceRate = PInf, Percentage = PInf,
       CI_pct = NaN\<rparr>]"
proof -
  let ?t = "[\<lparr>UserID = 1, QuestionID = 2, AnswerText = Some ''Anxiety'', SurveyID = 2016\<rparr>,
      \<lparr>UserID = 2, QuestionID = 2, AnswerText = Some ''Anxiety'', SurveyID = 2017\<rparr>,
      \<lparr>UserID = 2, QuestionID = 1, AnswerText = Some ''Yes'', SurveyID = 2017\<rparr>]"
  have zero: "respondents ?t 1 = 0"
    by (simp add: respondents_def)
  have top: "top_3_diagnoses ?t 2 = [(''Anxiety'', 2)]"
    by (simp add: top_3_diagnoses_def value_counts_def unique_def Let_def)
  from prevalence_zero_denominator [of ?t 1 2] zero show ?thesis
    by (simp add: top)
qed

text \<open>
  C1 as stated fails: with no respondent for question 1 the function returns a
  record, whose rate is infinite and whose half-width is NaN.
\<close>

theorem prevalence_zero_denominator_counterexample:
  "respondents [\<lparr>UserID = 1, QuestionID = 2, AnswerText = Some ''Anxiety'', SurveyID = 2016\<rparr>] 1 = 0
   \<and> create_prevalence_barplot
        [\<lparr>UserID = 1, QuestionID = 2, AnswerText = Some ''Anxiety'', SurveyID = 2016\<rparr>] 1 2 =
       [\<lparr>d_AnswerText = ''Anxiety'', d_count = 1, PrevalenceRate = PInf, Percentage = PInf,
         CI_pct = NaN\<rparr>]"
  by (simp add: respondents_def create_prevalence_barplot_def top_3_diagnoses_def value_counts_def
      unique_def Let_def signed_inf_def)

text \<open>
  C4. With a nonzero denominator, the count of non-null answers to the reference
  question in the wave 2016, each of the at most three records has the rate
  count / denominator, the percentage rate * 100 and the half-width
  1.6456 * sqrt (rate * (1 - rate) / denominator) * 100. The count of a record
  is the number of rows of the target question with its answer, and no category
  left out is more frequent than one kept. The target question is counted over
  all waves, so a rate can exceed 1; the square root is then taken of a negative
  number and the half-width is NaN.
\<close>

theorem prevalence_rates:
  assumes "respondents df q1 \<noteq> 0"
  shows "create_prevalence_barplot df q1 q2 =
     map (\<lambda>(a, c).
            \<lparr>d_AnswerText = a, d_count = c,
             PrevalenceRate = Fin (real c / real (respondents df q1)),
             Percentage = Fin (real c / real (respondents df q1) * 100),
             CI_pct =
               (if c \<le> respondents df q1
                then Fin (1.6456 *
                       sqrt (real c / real (respondents df q1) *
                             (1 - real c / real (respondents df q1)) / real (respondents df q1)) * 100)
                else NaN)\<rparr>)
       (top_3_diagnoses df q2)
   \<and> respondents df q1 =
       length (filter (\<lambda>r. QuestionID r = q1 \<and> SurveyID r = 2016 \<and> AnswerText r \<noteq> None) df)
   \<and> length (top_3_diagnoses df q2) \<le> 3
   \<and> (\<forall>(a, c) \<in> set (top_3_diagnoses df q2).
        c = target_count df q2 a \<and>
        (\<forall>a'. 0 < target_count df q2 a' \<and> a' \<notin> fst ` set (top_3_diagnoses df q2)
           \<longrightarrow> target_count df q2 a' \<le> c))"
proof -
  from assms have d: "0 < respondents df q1" by simp
  have rows: "create_prevalence_barplot df q1 q2 =
     map (\<lambda>(a, c).
            \<lparr>d_AnswerText = a, d_count = c,
             PrevalenceRate = Fin (real c / real (respondents df q1)),
             Percentage = Fin (real c / real (respondents df q1) * 100),
             CI_pct =
               (if c \<le> respondents df q1
                then Fin (1.6456 *
                       sqrt (real c / real (respondents df q1) *
                             (1 - real c / real (respondents df q1)) / real (respondents df q1)) * 100)
                else NaN)\<rparr>)
       (top_3_diagnoses df q2)"
    unfolding create_prevalence_barplot_def Let_def
    by (simp only: diagnosis_row_finite [OF d])
  have len: "length (top_3_diagnoses df q2) \<le> 3"
    by (simp add: top_3_diagnoses_def)
  have top: "\<forall>(a, c) \<in> set (top_3_diagnoses df q2).
        c = target_count df q2 a \<and>
        (\<forall>a'. 0 < target_count df q2 a' \<and> a' \<notin> fst ` set (top_3_diagnoses df q2)
           \<longrightarrow> target_count df q2 a' \<le> c)"
  proof (clarify, intro conjI allI impI)
    fix a c assume ac: "(a, c) \<in> set (top_3_diagnoses df q2)"
    then show "c = target_count df q2 a" using top_3_counts by blast
    fix a' assume a': "0 < target_count df q2 a' \<and> a' \<notin> fst ` set (top_3_diagnoses df q2)"
    let ?col = "map AnswerText (filter (\<lambda>r. QuestionID r = q2) df)"
    let ?vc = "value_counts ?col"
    from a' have "count_list (dropna ?col) a' \<noteq> 0"
      by (simp add: count_list_answers target_count_def)
    then have "a' \<in> set (dropna ?col)" by (simp add: count_list_0_iff)
    then have "(a', target_count df q2 a') \<in> set ?vc"
      by (auto simp: set_value_counts count_list_answers target_count_def)
    then have "(a', target_count df q2 a') \<in> set (take 3 ?vc) \<union> set (drop 3 ?vc)"
      by (simp flip: set_append)
    moreover from a' have "(a', target_count df q2 a') \<notin> set (take 3 ?vc)"
      by (force simp: top_3_diagnoses_def)
    ultimately have "(a', target_count df q2 a') \<in> set (drop 3 ?vc)" by simp
    with ac show "target_count df q2 a' \<le> c"
      unfolding top_3_diagnoses_def
      by (rule take_dominates_drop [OF sorted_value_counts])
  qed
  from rows len top respondents_eq [of df q1] show ?thesis by blast
qed

theorem prevalence_rates_witness:
  "respondents
     (replicate 100 \<lparr>UserID = 1, QuestionID = 1, AnswerText = Some ''Yes'', SurveyID = 2016\<rparr> @
      replicate 30 \<lparr>UserID = 1, QuestionID = 2, AnswerText = Some ''Anxiety'', SurveyID = 2016\<rparr>) 1
     = 100
   \<and> create_prevalence_barplot
     (replicate 100 \<lparr>UserID = 1, QuestionID = 1, AnswerText = Some ''Yes'', SurveyID = 2016\<rparr> @
      replicate 30 \<lparr>UserID = 1, QuestionID = 2, AnswerText = Some ''Anxiety'', SurveyID = 2016\<rparr>) 1 2
     = [\<lparr>d_AnswerText = ''Anxiety'', d_count = 30, PrevalenceRate = Fin (3 / 10),
         Percentage = Fin 30, CI_pct = Fin (16456 / 10000 * sqrt 21)\<rparr>]
   \<and> \<bar>16456 / 10000 * sqrt 21 - 754 / 100\<bar> < 5 / 1000
   \<and> top_3_diagnoses
     [\<lparr>UserID = 1, QuestionID = 1, AnswerText = Some ''Yes'', SurveyID = 2016\<rparr>,
      \<lparr>UserID = 1, QuestionID = 2, AnswerText = Some ''D'', SurveyID = 2016\<rparr>,
      \<lparr>UserID = 1, QuestionID = 2, AnswerText = Some ''A'', SurveyID = 2016\<rparr>,
      \<lparr>UserID = 2, QuestionID = 2, AnswerText = Some ''A'', SurveyID = 2016\<rparr>,
      \<lparr>UserID = 1, QuestionID = 2, AnswerText = Some ''B'', SurveyID = 2016\<rparr>,
      \<lparr>UserID = 2, QuestionID = 2, AnswerText = Some ''B'', SurveyID = 2017\<rparr>,
      \<lparr>UserID = 1, QuestionID = 2, AnswerText = Some ''C'', SurveyID = 2016\<rparr>,
      \<lparr>UserID = 2, QuestionID = 2, AnswerText = Some ''C'', SurveyID = 2017\<rparr>] 2 =
     [(''A'', 2), (''B'', 2), (''C'', 2)]
   \<and> target_count
     [\<lparr>UserID = 1, QuestionID = 1, AnswerText = Some ''Yes'', SurveyID = 2016\<rparr>,
      \<lparr>UserID = 1, QuestionID = 2, AnswerText = Some ''D'', SurveyID = 2016\<rparr>,
      \<lparr>UserID = 1, QuestionID = 2, AnswerText = Some ''A'', SurveyID = 2016\<rparr>,
      \<lparr>UserID = 2, QuestionID = 2, AnswerText = Some ''A'', SurveyID = 2016\<rparr>,
      \<lparr>UserID = 1, QuestionID = 2, AnswerText = Some ''B'', SurveyID = 2016\<rparr>,
      \<lparr>UserID = 2, QuestionID = 2, AnswerText = Some ''B'', SurveyID = 2017\<rparr>,
      \<lparr>UserID = 1, QuestionID = 2, AnswerText = Some ''C'', SurveyID = 2016\<rparr>,
      \<lparr>UserID = 2, QuestionID = 2, AnswerText = Some ''C'', SurveyID = 2017\<rparr>] 2 ''D'' \<le> 2"
proof -
  let ?t = "replicate 100 \<lparr>UserID = 1, QuestionID = 1, AnswerText = Some ''Yes'', SurveyID = 2016\<rparr> @
      replicate 30 \<lparr>UserID = 1, QuestionID = 2, AnswerText = Some ''Anxiety'', SurveyID = 2016\<rparr>"
  let ?u = "[\<lparr>UserID = 1, QuestionID = 1, AnswerText = Some ''Yes'', SurveyID = 2016\<rparr>,
      \<lparr>UserID = 1, QuestionID = 2, AnswerText = Some ''D'', SurveyID = 2016\<rparr>,
      \<lparr>UserID = 1, QuestionID = 2, AnswerText = Some ''A'', SurveyID = 2016\<rparr>,
      \<lparr>UserID = 2, QuestionID = 2, AnswerText = Some ''A'', SurveyID = 2016\<rparr>,
      \<lparr>UserID = 1, QuestionID = 2, AnswerText = Some ''B'', SurveyID = 2016\<rparr>,
      \<lparr>UserID = 2, QuestionID = 2, AnswerText = Some ''B'', SurveyID = 2017\<rparr>,
      \<lparr>UserID = 1, QuestionID = 2, AnswerText = Some ''C'', SurveyID = 2016\<rparr>,
      \<lparr>UserID = 2, QuestionID = 2, AnswerText = Some ''C'', SurveyID = 2017\<rparr>]"
  have d: "respondents ?t 1 = 100"
    by (simp add: respondents_def dropna_append dropna_replicate_Some)
  have top: "top_3_diagnoses ?t 2 = [(''Anxiety'', 30)]"
    by (simp add: top_3_diagnoses_def value_counts_def Let_def dropna_append
        dropna_replicate_Some unique_replicate count_list_replicate)
  have sq: "sqrt (21 / 10000) = sqrt 21 / 100"
    by (simp add: real_sqrt_divide)
  have rows: "create_prevalence_barplot ?t 1 2 =
      [\<lparr>d_AnswerText = ''Anxiety'', d_count = 30, PrevalenceRate = Fin (3 / 10),
         Percentage = Fin 30, CI_pct = Fin (16456 / 10000 * sqrt 21)\<rparr>]"
    using prevalence_rates [of ?t 1 2] by (simp add: d top sq)
  have near: "\<bar>16456 / 10000 * sqrt 21 - 754 / 100\<bar> < 5 / 1000"
    using sqrt_21_bounds by linarith
  have du: "respondents ?u 1 \<noteq> 0"
    by (simp add: respondents_def)
  have topu: "top_3_diagnoses ?u 2 = [(''A'', 2), (''B'', 2), (''C'', 2)]"
    by (simp add: top_3_diagnoses_def value_counts_def unique_def Let_def)
  have cd: "0 < target_count ?u 2 ''D''"
    by (simp add: target_count_def)
  have "\<forall>(a, c) \<in> set (top_3_diagnoses ?u 2).
        c = target_count ?u 2 a \<and>
        (\<forall>a'. 0 < target_count ?u 2 a' \<and> a' \<notin> fst ` set (top_3_diagnoses ?u 2)
           \<longrightarrow> target_count ?u 2 a' \<le> c)"
    by (rule prevalence_rates [OF du, of 2, THEN conjunct2, THEN conjunct2, THEN conjunct2])
  then have "0 < target_count ?u 2 ''D'' \<and> ''D'' \<notin> fst ` set [(''A'', 2::nat), (''B'', 2), (''C'', 2)]
      \<longrightarrow> target_count ?u 2 ''D'' \<le> 2"
    unfolding topu by simp
  with cd have left_out: "target_count ?u 2 ''D'' \<le> 2"
    by simp
  from d rows near topu left_out show ?thesis by blast
qed

text \<open>
  C3, as the code has it. The function takes the table and the two question ids
  only. The wave 2016, the three categories and the multiplier 1.6456 are
  constants of its body: its result is the estimate of the specification at
  exactly these values, and no error where the specification has one.
\<close>

theorem prevalence_parameters_fixed:
  "prevalence_estimator df q1 q2 2016 3 1.6456 =
     (if respondents df q1 = 0 then Inl NoRespondents
      else Inr (create_prevalence_barplot df q1 q2))"
  by (simp add: prevalence_estimator_def create_prevalence_barplot_def top_3_diagnoses_def
      respondents_eq Let_def)

theorem prevalence_parameters_fixed_witness:
  "prevalence_estimator
     [\<lparr>UserID = 1, QuestionID = 1, AnswerText = Some ''Yes'', SurveyID = 2016\<rparr>,
      \<lparr>UserID = 1, QuestionID = 2, AnswerText = Some ''A'', SurveyID = 2016\<rparr>] 1 2 2016 3 (16456 / 10000) =
   Inr [\<lparr>d_AnswerText = ''A'', d_count = 1, PrevalenceRate = Fin 1, Percentage = Fin 100,
         CI_pct = Fin 0\<rparr>]
   \<and> prevalence_estimator
     [\<lparr>UserID = 1, QuestionID = 1, AnswerText = Some ''Yes'', SurveyID = 2017\<rparr>,
      \<lparr>UserID = 1, QuestionID = 2, AnswerText = Some ''A'', SurveyID = 2016\<rparr>] 1 2 2016 3 (16456 / 10000) =
   Inl NoRespondents"
proof -
  let ?t = "[\<lparr>UserID = 1, QuestionID = 1, AnswerText = Some ''Yes'', SurveyID = 2016\<rparr>,
      \<lparr>UserID = 1, QuestionID = 2, AnswerText = Some ''A'', SurveyID = 2016\<rparr>]"
  let ?u = "[\<lparr>UserID = 1, QuestionID = 1, AnswerText = Some ''Yes'', SurveyID = 2017\<rparr>,
      \<lparr>UserID = 1, QuestionID = 2, AnswerText = Some ''A'', SurveyID = 2016\<rparr>]"
  have "create_prevalence_barplot ?t 1 2 =
      [\<lparr>d_AnswerText = ''A'', d_count = 1, PrevalenceRate = Fin 1, Percentage = Fin 100,
         CI_pct = Fin 0\<rparr>]"
    by (simp add: create_prevalence_barplot_def top_3_diagnoses_def respondents_def
        value_counts_def unique_def Let_def)
  moreover have "respondents ?t 1 = 1" "respondents ?u 1 = 0"
    by (simp_all add: respondents_def)
  ultimately show ?thesis
    using prevalence_parameters_fixed [of ?t 1 2] prevalence_parameters_fixed [of ?u 1 2]
    by simp
qed

text \<open>
  C3 as stated fails: the wave, the number of categories and the multiplier
  cannot be varied. For this table and these question ids, the estimates for the
  wave 2017, for one category and for the multiplier 2 each differ from the only
  result the function has.
\<close>

theorem prevalence_parameters_counterexample:
  "prevalence_estimator
     [\<lparr>UserID = 1, QuestionID = 1, AnswerText = Some ''Yes'', SurveyID = 2016\<rparr>,
      \<lparr>UserID = 2, QuestionID = 1, AnswerText = Some ''Yes'', SurveyID = 2016\<rparr>,
      \<lparr>UserID = 3, QuestionID = 1, AnswerText = Some ''No'', SurveyID = 2016\<rparr>,
      \<lparr>UserID = 4, QuestionID = 1, AnswerText = Some ''No'', SurveyID = 2016\<rparr>,
      \<lparr>UserID = 5, QuestionID = 1, AnswerText = Some ''Yes'', SurveyID = 2017\<rparr>,
      \<lparr>UserID = 6, QuestionID = 1, AnswerText = Some ''No'', SurveyID = 2017\<rparr>,
      \<lparr>UserID = 1, QuestionID = 2, AnswerText = Some ''A'', SurveyID = 2016\<rparr>,
      \<lparr>UserID = 2, QuestionID = 2, AnswerText = Some ''B'', SurveyID = 2016\<rparr>,
      \<lparr>UserID = 5, QuestionID = 2, AnswerText = Some ''A'', SurveyID = 2017\<rparr>] 1 2 2017 3 (16456 / 10000)
   \<noteq> Inr (create_prevalence_barplot
     [\<lparr>UserID = 1, QuestionID = 1, AnswerText = Some ''Yes'', SurveyID = 2016\<rparr>,
      \<lparr>UserID = 2, QuestionID = 1, AnswerText = Some ''Yes'', SurveyID = 2016\<rparr>,
      \<lparr>UserID = 3, QuestionID = 1, AnswerText = Some ''No'', SurveyID = 2016\<rparr>,
      \<lparr>UserID = 4, QuestionID = 1, AnswerText = Some ''No'', SurveyID = 2016\<rparr>,
      \<lparr>UserID = 5, QuestionID = 1, AnswerText = Some ''Yes'', SurveyID = 2017\<rparr>,
      \<lparr>UserID = 6, QuestionID = 1, AnswerText = Some ''No'', SurveyID = 2017\<rparr>,
      \<lparr>UserID = 1, QuestionID = 2, AnswerText = Some ''A'', SurveyID = 2016\<rparr>,
      \<lparr>UserID = 2, QuestionID = 2, AnswerText = Some ''B'', SurveyID = 2016\<rparr>,
      \<lparr>UserID = 5, QuestionID = 2, AnswerText = Some ''A'', SurveyID = 2017\<rparr>] 1 2)
   \<and> prevalence_estimator
     [\<lparr>UserID = 1, QuestionID = 1, AnswerText = Some ''Yes'', SurveyID = 2016\<rparr>,
      \<lparr>UserID = 2, QuestionID = 1, AnswerText = Some ''Yes'', SurveyID = 2016\<rparr>,
      \<lparr>UserID = 3, QuestionID = 1, AnswerText = Some ''No'', SurveyID = 2016\<rparr>,
      \<lparr>UserID = 4, QuestionID = 1, AnswerText = Some ''No'', SurveyID = 2016\<rparr>,
      \<lparr>UserID = 5, QuestionID = 1, AnswerText = Some ''Yes'', SurveyID = 2017\<rparr>,
      \<lparr>UserID = 6, QuestionID = 1, AnswerText = Some ''No'', SurveyID = 2017\<rparr>,
      \<lparr>UserID = 1, QuestionID = 2, AnswerText = Some ''A'', SurveyID = 2016\<rparr>,
      \<lparr>UserID = 2, QuestionID = 2, AnswerText = Some ''B'', SurveyID = 2016\<rparr>,
      \<lparr>UserID = 5, QuestionID = 2, AnswerText = Some ''A'', SurveyID = 2017\<rparr>] 1 2 2016 1 (16456 / 10000)
   \<noteq> Inr (create_prevalence_barplot
     [\<lparr>UserID = 1, QuestionID = 1, AnswerText = Some ''Yes'', SurveyID = 2016\<rparr>,
      \<lparr>UserID = 2, QuestionID = 1, AnswerText = Some ''Yes'', SurveyID = 2016\<rparr>,
      \<lparr>UserID = 3, QuestionID = 1, AnswerText = Some ''No'', SurveyID = 2016\<rparr>,
      \<lparr>UserID = 4, QuestionID = 1, AnswerText = Some ''No'', SurveyID = 2016\<rparr>,
      \<lparr>UserID = 5, QuestionID = 1, AnswerText = Some ''Yes'', SurveyID = 2017\<rparr>,
      \<lparr>UserID = 6, QuestionID = 1, AnswerText = Some ''No'', SurveyID = 2017\<rparr>,
      \<lparr>UserID = 1, QuestionID = 2, AnswerText = Some ''A'', SurveyID = 2016\<rparr>,
      \<lparr>UserID = 2, QuestionID = 2, AnswerText = Some ''B'', SurveyID = 2016\<rparr>,
      \<lparr>UserID = 5, QuestionID = 2, AnswerText = Some ''A'', SurveyID = 2017\<rparr>] 1 2)
   \<and> prevalence_estimator
     [\<lparr>UserID = 1, QuestionID = 1, AnswerText = Some ''Yes'', SurveyID = 2016\<rparr>,
      \<lparr>UserID = 2, QuestionID = 1, AnswerText = Some ''Yes'', SurveyID = 2016\<rparr>,
      \<lparr>UserID = 3, QuestionID = 1, AnswerText = Some ''No'', SurveyID = 2016\<rparr>,
      \<lparr>UserID = 4, QuestionID = 1, AnswerText = Some ''No'', SurveyID = 2016\<rparr>,
      \<lparr>UserID = 5, QuestionID = 1, AnswerText = Some ''Yes'', SurveyID = 2017\<rparr>,
      \<lparr>UserID = 6, QuestionID = 1, AnswerText = Some ''No'', SurveyID = 2017\<rparr>,
      \<lparr>UserID = 1, QuestionID = 2, AnswerText = Some ''A'', SurveyID = 2016\<rparr>,
      \<lparr>UserID = 2, QuestionID = 2, AnswerText = Some ''B'', SurveyID = 2016\<rparr>,
      \<lparr>UserID = 5, QuestionID = 2, AnswerText = Some ''A'', SurveyID = 2017\<rparr>] 1 2 2016 3 2
   \<noteq> Inr (create_prevalence_barplot
     [\<lparr>UserID = 1, QuestionID = 1, AnswerText = Some ''Yes'', SurveyID = 2016\<rparr>,
      \<lparr>UserID = 2, QuestionID = 1, AnswerText = Some ''Yes'', SurveyID = 2016\<rparr>,
      \<lparr>UserID = 3, QuestionID = 1, AnswerText = Some ''No'', SurveyID = 2016\<rparr>,
      \<lparr>UserID = 4, QuestionID = 1, AnswerText = Some ''No'', SurveyID = 2016\<rparr>,
      \<lparr>UserID = 5, QuestionID = 1, AnswerText = Some ''Yes'', SurveyID = 2017\<rparr>,
      \<lparr>UserID = 6, QuestionID = 1, AnswerText = Some ''No'', SurveyID = 2017\<rparr>,
      \<lparr>UserID = 1, QuestionID = 2, AnswerText = Some ''A'', SurveyID = 2016\<rparr>,
      \<lparr>UserID = 2, QuestionID = 2, AnswerText = Some ''B'', SurveyID = 2016\<rparr>,
      \<lparr>UserID = 5, QuestionID = 2, AnswerText = Some ''A'', SurveyID = 2017\<rparr>] 1 2)"
  by (simp add: prevalence_estimator_def create_prevalence_barplot_def top_3_diagnoses_def
      respondents_def value_counts_def unique_def Let_def real_sqrt_divide sqrt_16)

subsection \<open>Answer coercion\<close>

lemma series_map_cases:
  "series_map a =
     (if a \<in> {Some ''Yes'', Some ''Yes, all of them''} then Some 1
      else if a \<in> {Some ''No'', Some ''None of them''} then Some 0
      else if a \<in> {Some ''Some did'', Some ''Some of them'', Some ''Maybe''} then Some (1 / 2)
      else None)"
  by (simp add: series_map_def text_to_num_mapping_def)

lemma keys_not_numeric:
  "\<not> isnumeric ''Yes''" "\<not> isnumeric ''Yes, all of them''" "\<not> isnumeric ''No''"
  "\<not> isnumeric ''None of them''" "\<not> isnumeric ''Some did''" "\<not> isnumeric ''Some of them''"
  "\<not> isnumeric ''Maybe''"
  by (simp_all add: isnumeric_def)

lemma series_map_isnumeric:
  assumes "isnumeric s"
  shows "series_map (Some s) = None"
proof -
  from assms keys_not_numeric
  have "s \<noteq> ''Yes''" "s \<noteq> ''Yes, all of them''" "s \<noteq> ''No''" "s \<noteq> ''None of them''"
    "s \<noteq> ''Some did''" "s \<noteq> ''Some of them''" "s \<noteq> ''Maybe''"
    by blast+
  then show ?thesis
    by (simp add: series_map_cases)
qed

lemma map_cell_cases:
  "map_cell c =
     (if c \<in> {Str ''Yes'', Str ''Yes, all of them''} then Some 1
      else if c \<in> {Str ''No'', Str ''None of them''} then Some 0
      else if c \<in> {Str ''Some did'', Str ''Some of them'', Str ''Maybe''} then Some (1 / 2)
      else None)"
  by (cases c) (simp_all add: map_cell_def series_map_cases)

lemma violin_pair_Inr:
  "violin_pair parse question_labels df (q1, q2) = Inr v \<Longrightarrow>
   \<exists>temp_df. melt df q1 q2 = Inr temp_df \<and>
     (y_column v, y_values v) = coerce_answers parse (map (\<lambda>(u, q, a). a) temp_df)"
  by (auto simp: violin_pair_def Let_def split: sum.splits)

lemma set_texts: "set (texts cs) = {s. Str s \<in> set cs}"
  by (induction cs rule: texts.induct) auto

lemma set_numbers: "set (numbers cs) = {x. Num x \<in> set cs}"
  by (induction cs rule: numbers.induct) auto

lemma cast_error_unparsable:
  assumes "Str s \<in> set cs" "int_of s = None" "float_of s = None"
  shows "cast_error int_of float_of dtype cs = Some ValueError"
proof -
  from assms(1) have "s \<in> set (texts cs)" by (simp add: set_texts)
  with assms(2,3) have "list_ex (\<lambda>s. int_of s = None) (texts cs)"
    "list_ex (\<lambda>s. float_of s = None) (texts cs)"
    by (auto simp: list_ex_iff)
  then show ?thesis
    by (cases dtype) (simp_all add: cast_error_def)
qed

lemma mapping_pass_unparsable:
  assumes "Str s \<in> set col" "map_cell (Str s) = None" "int_of s = None" "float_of s = None"
  shows "mapping_pass int_of float_of col = Inl ValueError"
proof -
  from assms(1,2) have "Str s \<in> set (fill_cells col)"
    by (simp add: fill_cells_def)
  then have "\<And>dtype. cast_error int_of float_of dtype (fill_cells col) = Some ValueError"
    using assms(3,4) by (rule cast_error_unparsable)
  then show ?thesis
    by (simp add: mapping_pass_def Let_def)
qed

lemma coerce_columns_raises:
  assumes "(name, col) \<in> set df" "mapping_pass int_of float_of col = Inl e"
  shows "\<exists>e'. coerce_columns int_of float_of df = Inl e'"
  using assms(1)
proof (induction df)
  case Nil
  then show ?case by simp
next
  case (Cons p df)
  obtain n c where p: "p = (n, c)" by (cases p)
  show ?case
  proof (cases "mapping_pass int_of float_of c")
    case (Inl e1)
    then show ?thesis by (simp add: p)
  next
    case (Inr new)
    with assms(2) Cons.prems p have "(name, col) \<in> set df" by auto
    from Cons.IH [OF this] obtain e' where "coerce_columns int_of float_of df = Inl e'" ..
    with Inr show ?thesis by (simp add: p)
  qed
qed

lemma coerce_columns_Inr:
  "coerce_columns int_of float_of df = Inr t \<Longrightarrow>
   map fst t = map fst df \<and>
   (\<forall>i < length df. mapping_pass int_of float_of (snd (df ! i)) = Inr (snd (t ! i)))"
proof (induction df arbitrary: t)
  case Nil
  then show ?case by simp
next
  case (Cons p df)
  obtain n c where p: "p = (n, c)" by (cases p)
  from Cons.prems obtain new t' where new: "mapping_pass int_of float_of c = Inr new"
    and t': "coerce_columns int_of float_of df = Inr t'" and t: "t = (n, new) # t'"
    by (auto simp: p split: sum.splits)
  from Cons.IH [OF t'] have IH: "map fst t' = map fst df"
    "\<forall>i < length df. mapping_pass int_of float_of (snd (df ! i)) = Inr (snd (t' ! i))"
    by simp_all
  show ?case
  proof (intro conjI allI impI)
    show "map fst t = map fst (p # df)" by (simp add: t p IH)
    fix i assume "i < length (p # df)"
    then show "mapping_pass int_of float_of (snd ((p # df) ! i)) = Inr (snd (t ! i))"
      using IH(2) new by (cases i) (simp_all add: t p)
  qed
qed

text \<open>What a successful pass returns, cell by cell.\<close>

lemma mapping_pass_Inr:
  assumes "mapping_pass int_of float_of col = Inr new"
  shows "new = map (\<lambda>c. case map_cell c of
                           None \<Rightarrow> cast_cell int_of float_of (convert_dtypes (map map_cell col)) c
                         | Some v \<Rightarrow> Num v) col"
  using assms by (simp add: mapping_pass_def Let_def split: option.splits)

lemma mapping_pass_no_text:
  assumes "mapping_pass int_of float_of col = Inr new"
  shows "texts new = []"
proof -
  have c: "\<And>dt c s. cast_cell int_of float_of dt c \<noteq> Str s"
    by (simp add: cast_cell_def split: cell.splits nullable_dtype.splits option.splits)
  have "\<forall>s. Str s \<notin> set new"
  proof (intro allI notI)
    fix s assume "Str s \<in> set new"
    then obtain c0 where "c0 \<in> set col"
      and "Str s = (case map_cell c0 of
             None \<Rightarrow> cast_cell int_of float_of (convert_dtypes (map map_cell col)) c0
           | Some v \<Rightarrow> Num v)"
      unfolding mapping_pass_Inr [OF assms] by auto
    then show False
      using c [of "convert_dtypes (map map_cell col)" c0 s]
      by (cases "map_cell c0") auto
  qed
  then show ?thesis
    using set_texts [of new] by (cases "texts new") auto
qed

lemma floor_ceiling_half: "\<lfloor>1 / 2 :: real\<rfloor> = 0" "\<lceil>1 / 2 :: real\<rceil> = 1"
proof -
  show "\<lfloor>1 / 2 :: real\<rfloor> = 0" by (rule floor_unique) simp_all
  show "\<lceil>1 / 2 :: real\<rceil> = 1" by (rule ceiling_unique) simp_all
qed

lemma cast_error_None_text:
  assumes "cast_error int_of float_of dtype cs = None" "Str s \<in> set cs"
  shows "case dtype of Int64 \<Rightarrow> int_of s \<noteq> None | Float64 \<Rightarrow> float_of s \<noteq> None"
proof -
  from assms(2) have "s \<in> set (texts cs)" by (simp add: set_texts)
  with assms(1) show ?thesis
    by (cases dtype) (auto simp: cast_error_def list_ex_iff split: if_splits)
qed

lemma mapping_pass_agrees_with_policy:
  assumes ok: "mapping_pass int_of float_of col = Inr new"
    and int_parse: "\<And>s n. int_of s = Some n \<Longrightarrow> parse s = Some (real_of_int n)"
    and float_parse: "\<And>s x. float_of s = Some x \<Longrightarrow> parse s = Some x"
  shows "map (to_numeric parse) new = two_pass_policy parse col"
proof -
  let ?dt = "convert_dtypes (map map_cell col)"
  from ok have ce: "cast_error int_of float_of ?dt (fill_cells col) = None"
    by (simp add: mapping_pass_def Let_def split: option.splits)
  have cell: "to_numeric parse (cast_cell int_of float_of ?dt c) = to_numeric parse c"
    if c: "c \<in> set col" "map_cell c = None" for c
  proof (cases c)
    case (Str s)
    with c have "Str s \<in> set (fill_cells col)" by (simp add: fill_cells_def)
    from cast_error_None_text [OF ce this] show ?thesis
      by (cases ?dt)
         (auto simp: Str cast_cell_def to_numeric_def int_parse float_parse split: option.splits)
  qed (simp_all add: cast_cell_def to_numeric_def)
  have num: "\<And>v. to_numeric parse (Num v) = Some v"
    by (simp add: to_numeric_def)
  show ?thesis
    unfolding mapping_pass_Inr [OF ok] two_pass_policy_def
    by (auto simp: cell num split: option.splits)
qed

text \<open>
  A column of numbers alone: no cell is a key of the mapping, the mapped column
  is all missing and becomes \<^verbatim>\<open>Int64\<close>, and the fill casts the numbers into it.
  Whole numbers come back as they were; one fractional number raises
  \<^verbatim>\<open>TypeError\<close>.
\<close>

lemma mapping_pass_numeric_column:
  "mapping_pass int_of float_of (map Num xs) =
     (if list_all is_whole xs then Inr (map Num xs) else Inl TypeError)"
proof -
  have m: "map map_cell (map Num xs) = map (\<lambda>x. None) xs"
    by (simp add: map_cell_def)
  have d: "dropna (map (\<lambda>x. None :: real option) xs) = []"
    by (induction xs) simp_all
  have dt: "convert_dtypes (map map_cell (map Num xs)) = Int64"
    by (simp only: m) (simp add: convert_dtypes_def d)
  have f: "fill_cells (map Num xs) = map Num xs"
    by (simp add: fill_cells_def map_cell_def)
  have t: "texts (map Num xs) = []" and n: "numbers (map Num xs) = xs"
    by (induction xs) simp_all
  have e: "cast_error int_of float_of Int64 (map Num xs) =
      (if list_all is_whole xs then None else Some TypeError)"
    by (auto simp: cast_error_def t n list_ex_iff list_all_iff)
  have c: "map (\<lambda>c. case map_cell c of None \<Rightarrow> cast_cell int_of float_of Int64 c
                                      | Some v \<Rightarrow> Num v) (map Num xs) = map Num xs"
    by (induction xs) (simp_all add: map_cell_def cast_cell_def)
  show ?thesis
    unfolding mapping_pass_def Let_def dt f e using c by simp
qed

lemma mapping_pass_fractional_number:
  "mapping_pass int_of float_of [Num 2, Num (1 / 2)] = Inl TypeError"
  using mapping_pass_numeric_column [of int_of float_of "[2, 1 / 2]"]
  by (simp add: is_whole_def floor_ceiling_half)

text \<open>
  C5. The claim is the policy the code is written for: the mapped value, else
  the original cell, parsed as a number or made missing. The code does not reach
  its last step on a text that is no key of the mapping and no number. Line 249
  converts the mapped column to a nullable numeric type before it fills in the
  original cells, so the fill casts them, and the cast of such a text raises
  \<^verbatim>\<open>ValueError\<close>. The function ends there, and \<^verbatim>\<open>errors="coerce"\<close> of line 250
  is never applied to the text. Where line 249 raises nothing, the result is the
  one of the policy (lemma \<open>mapping_pass_agrees_with_policy\<close>). The same cast
  raises \<^verbatim>\<open>TypeError\<close> on a column of numbers with a fractional one (lemma
  \<open>mapping_pass_numeric_column\<close>), so that not every numeric column passes the
  mapping unchanged.
\<close>

theorem heatmap_raises_on_unparsable_text:
  assumes "(name, col) \<in> set df" and "i < length col" and "col ! i = Str s"
    and "map_cell (Str s) = None"
    and "int_of s = None" and "float_of s = None" and "parse s = None"
  shows "two_pass_policy parse col ! i = None
   \<and> mapping_pass int_of float_of col = Inl ValueError
   \<and> (\<exists>e. create_correlation_heatmap int_of float_of parse df = Inl e)"
proof -
  from assms(2,3) have mem: "Str s \<in> set col"
    by (metis nth_mem)
  have pass: "mapping_pass int_of float_of col = Inl ValueError"
    using mem assms(4,5,6) by (rule mapping_pass_unparsable)
  from coerce_columns_raises [OF assms(1) pass]
  have "\<exists>e. create_correlation_heatmap int_of float_of parse df = Inl e"
    by (auto simp: create_correlation_heatmap_def)
  moreover from assms(2,3,4,7) have "two_pass_policy parse col ! i = None"
    by (simp add: two_pass_policy_def to_numeric_def)
  ultimately show ?thesis using pass by blast
qed

theorem heatmap_raises_on_unparsable_text_witness:
  "two_pass_policy (\<lambda>s. if s = ''5'' then Some 5 else None) [Str ''Yes'', Str ''abc''] =
     [Some 1, None]
   \<and> mapping_pass (\<lambda>s. if s = ''5'' then Some 5 else None) (\<lambda>s. if s = ''5'' then Some 5 else None)
        [Str ''Yes'', Str ''abc''] = Inl ValueError
   \<and> create_correlation_heatmap (\<lambda>s. if s = ''5'' then Some 5 else None)
        (\<lambda>s. if s = ''5'' then Some 5 else None) (\<lambda>s. if s = ''5'' then Some 5 else None)
        [(''q'', [Str ''Yes'', Str ''abc''])] = Inl ValueError
   \<and> create_correlation_heatmap (\<lambda>s. if s = ''5'' then Some 5 else None)
        (\<lambda>s. if s = ''5'' then Some 5 else None) (\<lambda>s. if s = ''5'' then Some 5 else None)
        [(''q'', [Str ''Yes'', Str ''5'', Null, Str ''No''])] =
       Inr [(''q'', [Some 1, Some 5, None, Some 0])]"
proof -
  let ?i = "\<lambda>s. if s = ''5'' then Some (5::int) else None"
  let ?f = "\<lambda>s. if s = ''5'' then Some (5::real) else None"
  have key: "map_cell (Str ''abc'') = None"
    by (simp add: map_cell_def series_map_def text_to_num_mapping_def)
  from heatmap_raises_on_unparsable_text
    [of "''q''" "[Str ''Yes'', Str ''abc'']" "[(''q'', [Str ''Yes'', Str ''abc''])]" 1 "''abc''" ?i ?f ?f]
    key
  have pol: "two_pass_policy ?f [Str ''Yes'', Str ''abc''] ! 1 = None"
    and pass: "mapping_pass ?i ?f [Str ''Yes'', Str ''abc''] = Inl ValueError"
    by simp_all
  have p: "two_pass_policy ?f [Str ''Yes'', Str ''abc''] = [Some 1, None]"
    by (simp add: two_pass_policy_def map_cell_def series_map_def text_to_num_mapping_def
        to_numeric_def)
  have bad: "create_correlation_heatmap ?i ?f ?f [(''q'', [Str ''Yes'', Str ''abc''])] =
      Inl ValueError"
    by (simp add: create_correlation_heatmap_def pass)
  have good: "create_correlation_heatmap ?i ?f ?f [(''q'', [Str ''Yes'', Str ''5'', Null, Str ''No''])] =
      Inr [(''q'', [Some 1, Some 5, None, Some 0])]"
    by (simp add: create_correlation_heatmap_def mapping_pass_def convert_dtypes_def is_whole_def
        cast_error_def fill_cells_def cast_cell_def map_cell_def series_map_def
        text_to_num_mapping_def to_numeric_def Let_def floor_ceiling_half)
  from p pass bad good show ?thesis by blast
qed

text \<open>
  C10. In the violin comparison the melted answer column is coerced as a whole.
  Numeric parsing is used only when every non-null answer is a text of digits.
  As soon as one answer is not, every answer goes through the ordinal mapping
  alone, and an answer that is a text of digits, which is no key of the mapping,
  becomes missing.
\<close>

theorem violin_coercion_all_or_nothing:
  "(list_all isnumeric (dropna answers) \<longrightarrow>
      coerce_answers parse answers =
        (''AnswerText'', map (\<lambda>a. case a of None \<Rightarrow> None | Some s \<Rightarrow> parse s) answers))
   \<and> (\<not> list_all isnumeric (dropna answers) \<longrightarrow>
        coerce_answers parse answers = (''AnswerNumeric'', map series_map answers)
        \<and> (\<forall>i < length answers. \<forall>s. answers ! i = Some s \<and> isnumeric s \<longrightarrow>
              snd (coerce_answers parse answers) ! i = None))
   \<and> (\<forall>v. violin_pair parse question_labels df (q1, q2) = Inr v \<longrightarrow>
        (\<exists>temp_df. melt df q1 q2 = Inr temp_df \<and>
           (y_column v, y_values v) = coerce_answers parse (map (\<lambda>(u, q, a). a) temp_df)))"
proof (intro conjI impI allI)
  assume "list_all isnumeric (dropna answers)"
  then show "coerce_answers parse answers =
        (''AnswerText'', map (\<lambda>a. case a of None \<Rightarrow> None | Some s \<Rightarrow> parse s) answers)"
    by (simp add: coerce_answers_def)
next
  assume "\<not> list_all isnumeric (dropna answers)"
  then show "coerce_answers parse answers = (''AnswerNumeric'', map series_map answers)"
    by (simp add: coerce_answers_def)
next
  fix i s
  assume n: "\<not> list_all isnumeric (dropna answers)" and i: "i < length answers"
    and s: "answers ! i = Some s \<and> isnumeric s"
  from n have "snd (coerce_answers parse answers) = map series_map answers"
    by (simp add: coerce_answers_def)
  with i s show "snd (coerce_answers parse answers) ! i = None"
    by (simp add: series_map_isnumeric)
next
  fix v assume "violin_pair parse question_labels df (q1, q2) = Inr v"
  then show "\<exists>temp_df. melt df q1 q2 = Inr temp_df \<and>
           (y_column v, y_values v) = coerce_answers parse (map (\<lambda>(u, q, a). a) temp_df)"
    by (rule violin_pair_Inr)
qed

theorem violin_coercion_all_or_nothing_witness:
  "\<not> list_all isnumeric (dropna [Some ''5'', None, Some ''Yes''])
   \<and> coerce_answers (\<lambda>s. if s = ''5'' then Some 5 else None) [Some ''5'', None, Some ''Yes''] =
       (''AnswerNumeric'', [None, None, Some 1])
   \<and> list_all isnumeric (dropna [Some ''5'', None, Some ''5''])
   \<and> coerce_answers (\<lambda>s. if s = ''5'' then Some 5 else None) [Some ''5'', None, Some ''5''] =
       (''AnswerText'', [Some 5, None, Some 5])
   \<and> violin_pair (\<lambda>s. if s = ''5'' then Some 5 else None) [1 \<mapsto> ''now'']
        \<lparr>w_index = [10, 11], w_columns = [1 \<mapsto> [Some ''5'', Some ''Yes''], 2 \<mapsto> [None, Some ''7'']]\<rparr>
        (1, 2) =
       Inr \<lparr>v_UserID = [10, 11, 10, 11], v_QuestionID = [1, 1, 2, 2],
            v_Label = [Some ''now'', Some ''now'', None, None],
            y_column = ''AnswerNumeric'', y_values = [None, Some 1, None, None]\<rparr>
   \<and> (\<exists>temp_df.
         melt \<lparr>w_index = [10, 11],
                 w_columns = [1 \<mapsto> [Some ''5'', Some ''Yes''], 2 \<mapsto> [None, Some ''7'']]\<rparr> 1 2 =
           Inr temp_df
         \<and> (''AnswerNumeric'', [None, Some 1, None, None]) =
             coerce_answers (\<lambda>s. if s = ''5'' then Some 5 else None)
               (map (\<lambda>(u, q, a). a) temp_df))"
proof -
  let ?p = "\<lambda>s. if s = ''5'' then Some (5::real) else None"
  let ?d = "\<lparr>w_index = [10, 11],
      w_columns = [1 \<mapsto> [Some ''5'', Some ''Yes''], 2 \<mapsto> [None, Some ''7'']]\<rparr>"
  let ?v = "\<lparr>v_UserID = [10, 11, 10, 11], v_QuestionID = [1, 1, 2, 2],
            v_Label = [Some ''now'', Some ''now'', None, None],
            y_column = ''AnswerNumeric'', y_values = [None, Some 1, None, None]\<rparr>"
  have a: "\<not> list_all isnumeric (dropna [Some ''5'', None, Some ''Yes''])"
    by (simp add: isnumeric_def)
  have b: "list_all isnumeric (dropna [Some ''5'', None, Some ''5''])"
    by (simp add: isnumeric_def)
  have m: "map series_map [Some ''5'', None, Some ''Yes''] = [None, None, Some 1]"
    by (simp add: series_map_def text_to_num_mapping_def)
  have pair: "violin_pair ?p [1 \<mapsto> ''now''] ?d (1, 2) = Inr ?v"
    by (simp add: violin_pair_def melt_def coerce_answers_def isnumeric_def series_map_def
        text_to_num_mapping_def Let_def)
  note thm1 = violin_coercion_all_or_nothing [of "[Some ''5'', None, Some ''Yes'']" ?p
      "[1 \<mapsto> ''now'']" ?d 1 2]
  note thm2 = violin_coercion_all_or_nothing [of "[Some ''5'', None, Some ''5'']" ?p
      "[1 \<mapsto> ''now'']" ?d 1 2]
  from thm1 a have c1: "coerce_answers ?p [Some ''5'', None, Some ''Yes''] =
      (''AnswerNumeric'', map series_map [Some ''5'', None, Some ''Yes''])"
    by blast
  from thm2 b have c2: "coerce_answers ?p [Some ''5'', None, Some ''5''] =
      (''AnswerText'', [Some 5, None, Some 5])"
    by simp
  from thm1 pair have "\<exists>temp_df. melt ?d 1 2 = Inr temp_df \<and>
      (y_column ?v, y_values ?v) = coerce_answers ?p (map (\<lambda>(u, q, a). a) temp_df)"
    by blast
  then have c3: "\<exists>temp_df. melt ?d 1 2 = Inr temp_df \<and>
      (''AnswerNumeric'', [None, Some 1, None, None]) =
        coerce_answers ?p (map (\<lambda>(u, q, a). a) temp_df)"
    by simp
  from a b c1 c2 c3 pair m show ?thesis by simp
qed

subsection \<open>The store: no function changes its input table\<close>

lemma extends_refl: "extends h h"
  by (simp add: extends_def)

lemma extends_length: "extends h h' \<Longrightarrow> length h \<le> length h'"
proof -
  assume "extends h h'"
  then have "length (take (length h) h') = length h"
    by (simp only: extends_def)
  then show ?thesis by simp
qed

lemma extends_nth: "extends h h' \<Longrightarrow> a < length h \<Longrightarrow> h' ! a = h ! a"
  unfolding extends_def by (metis nth_take)

lemma extends_new: "extends h h1 \<Longrightarrow> extends h (snd (new_frame h1 v))"
  using extends_length [of h h1] by (simp add: extends_def new_frame_def)

lemma fst_new: "fst (new_frame h v) = length h"
  by (simp add: new_frame_def)

lemma length_new: "length (snd (new_frame h v)) = Suc (length h)"
  by (simp add: new_frame_def)

lemma extends_setitem: "extends h h1 \<Longrightarrow> length h \<le> a \<Longrightarrow> extends h (setitem h1 a v)"
  by (simp add: extends_def setitem_def)

lemma length_setitem: "length (setitem h a v) = length h"
  by (simp add: setitem_def)


lemma find_outliers_store_extends: "extends h (fst (find_outliers_store h df features))"
  by (simp add: find_outliers_store_def extends_refl split: option.splits frame.splits)

lemma create_age_histplot_store_extends: "extends h (fst (create_age_histplot_store parse h df))"
  using extends_new [OF extends_refl, of h]
  by (simp add: create_age_histplot_store_def extends_refl case_prod_beta
      split: option.splits frame.splits)

lemma create_gender_barplot_store_extends: "extends h (fst (create_gender_barplot_store h df))"
proof (cases "deref h df")
  case None
  then show ?thesis by (simp add: create_gender_barplot_store_def extends_refl)
next
  case (Some f)
  show ?thesis
  proof (cases f)
    case (SurveyFrame t)
    let ?h1 = "snd (new_frame h (SurveyFrame (filter (\<lambda>r. QuestionID r = 2) t)))"
    let ?c = "CountsFrame (sort_key (\<lambda>(y, a, c). (y, a)) (group_size (filter (\<lambda>r. QuestionID r = 2) t)))"
    have e2: "extends h (snd (new_frame ?h1 ?c))"
      by (intro extends_new extends_refl)
    have "length h \<le> fst (new_frame ?h1 ?c)"
      by (simp add: fst_new length_new)
    with e2 have "extends h (setitem (snd (new_frame ?h1 ?c)) (fst (new_frame ?h1 ?c))
        (GenderFrame (create_gender_barplot t)))"
      by (rule extends_setitem)
    then show ?thesis
      by (simp add: create_gender_barplot_store_def Some SurveyFrame case_prod_beta Let_def)
  qed (simp_all add: create_gender_barplot_store_def Some extends_refl)
qed

lemma lineplot_step_extends:
  assumes "extends h (fst st)"
  shows "extends h (fst (lineplot_step t st q))"
  using assms
  by (simp add: lineplot_step_def case_prod_beta Let_def extends_new)

lemma foldl_lineplot_extends:
  "extends h (fst st) \<Longrightarrow> extends h (fst (foldl (lineplot_step t) st qs))"
  by (induction qs arbitrary: st) (simp_all add: lineplot_step_extends)

lemma create_lineplot_store_extends: "extends h (fst (create_lineplot_store h df questions))"
  by (simp add: create_lineplot_store_def extends_refl foldl_lineplot_extends
      split: option.splits frame.splits)

lemma create_prevalence_barplot_store_extends:
  "extends h (fst (create_prevalence_barplot_store h df q1 q2))"
proof (cases "deref h df")
  case None
  then show ?thesis by (simp add: create_prevalence_barplot_store_def extends_refl)
next
  case (Some f)
  show ?thesis
  proof (cases f)
    case (SurveyFrame t)
    have "extends h (snd (new_frame h (TopFrame (top_3_diagnoses t q2))))"
      by (intro extends_new extends_refl)
    moreover have "length h \<le> fst (new_frame h (TopFrame (top_3_diagnoses t q2)))"
      by (simp add: fst_new)
    ultimately have "extends h (setitem (snd (new_frame h (TopFrame (top_3_diagnoses t q2))))
        (fst (new_frame h (TopFrame (top_3_diagnoses t q2))))
        (DiagnosisFrame (create_prevalence_barplot t q1 q2)))"
      by (rule extends_setitem)
    then show ?thesis
      by (simp add: create_prevalence_barplot_store_def Some SurveyFrame case_prod_beta Let_def)
  qed (simp_all add: create_prevalence_barplot_store_def Some extends_refl)
qed

lemma heatmap_loop_extends:
  "extends h h1 \<Longrightarrow> length h \<le> df \<Longrightarrow>
   extends h (fst (heatmap_loop int_of float_of df h1 cols))"
proof (induction cols arbitrary: h1)
  case Nil
  then show ?case by simp
next
  case (Cons col cols)
  show ?case
  proof (cases "deref h1 df")
    case None
    with Cons.prems show ?thesis by simp
  next
    case (Some f)
    show ?thesis
    proof (cases f)
      case (CellFrame t)
      show ?thesis
      proof (cases "mapping_pass int_of float_of (get_column t col)")
        case (Inl e)
        with Cons.prems show ?thesis by (simp add: Some CellFrame)
      next
        case (Inr new)
        from Cons.prems have "extends h (setitem h1 df (CellFrame (set_column t col new)))"
          by (simp add: extends_setitem)
        from Cons.IH [OF this Cons.prems(2)] show ?thesis
          by (simp add: Some CellFrame Inr)
      qed
    qed (use Cons.prems in \<open>simp_all add: Some\<close>)
  qed
qed

lemma length_heatmap_loop:
  "length (fst (heatmap_loop int_of float_of df h1 cols)) = length h1"
proof (induction cols arbitrary: h1)
  case Nil
  then show ?case by simp
next
  case (Cons col cols)
  show ?case
  proof (cases "deref h1 df")
    case None
    then show ?thesis by simp
  next
    case (Some f)
    show ?thesis
    proof (cases f)
      case (CellFrame t)
      show ?thesis
      proof (cases "mapping_pass int_of float_of (get_column t col)")
        case (Inl e)
        then show ?thesis by (simp add: Some CellFrame)
      next
        case (Inr new)
        from Cons.IH [of "setitem h1 df (CellFrame (set_column t col new))"] show ?thesis
          by (simp add: Some CellFrame Inr length_setitem)
      qed
    qed (simp_all add: Some)
  qed
qed

lemma create_correlation_heatmap_store_extends:
  "extends h (fst (create_correlation_heatmap_store int_of float_of parse h df))"
proof (cases "deref h df")
  case None
  then show ?thesis by (simp add: create_correlation_heatmap_store_def extends_refl)
next
  case (Some f)
  show ?thesis
  proof (cases f)
    case (CellFrame t)
    let ?df1 = "fst (new_frame h (CellFrame t))"
    let ?h1 = "snd (new_frame h (CellFrame t))"
    obtain h2 r where loop: "heatmap_loop int_of float_of ?df1 ?h1 (map fst t) = (h2, r)"
      by (cases "heatmap_loop int_of float_of ?df1 ?h1 (map fst t)")
    have "extends h ?h1"
      by (intro extends_new extends_refl)
    moreover have "length h \<le> ?df1"
      by (simp add: fst_new)
    ultimately have "extends h (fst (heatmap_loop int_of float_of ?df1 ?h1 (map fst t)))"
      by (rule heatmap_loop_extends)
    then have e2: "extends h h2" by (simp add: loop)
    show ?thesis
    proof (cases r)
      case None
      with e2 show ?thesis
        by (simp add: create_correlation_heatmap_store_def Some CellFrame case_prod_beta Let_def
            loop extends_new)
    next
      case (Some e)
      with e2 show ?thesis
        by (simp add: create_correlation_heatmap_store_def \<open>deref h df = Some f\<close> CellFrame
            case_prod_beta Let_def loop)
    qed
  qed (simp_all add: create_correlation_heatmap_store_def Some extends_refl)
qed

lemma violin_step_extends:
  assumes "extends h h1"
  shows "extends h (fst (violin_step parse labels t h1 pair))"
proof (cases "melt t (fst pair) (snd pair)")
  case (Inl e)
  with assms show ?thesis
    by (simp add: violin_step_def case_prod_beta extends_new)
next
  case (Inr rows)
  let ?h1 = "snd (new_frame h1 (TextFrame t))"
  have e2: "extends h (snd (new_frame ?h1 (MeltedFrame rows)))"
    using assms by (intro extends_new)
  have "length h \<le> fst (new_frame ?h1 (MeltedFrame rows))"
    using extends_length [OF assms] by (simp add: fst_new length_new)
  with e2 have "\<And>v. extends h (setitem (snd (new_frame ?h1 (MeltedFrame rows)))
      (fst (new_frame ?h1 (MeltedFrame rows))) v)"
    by (rule extends_setitem)
  with e2 show ?thesis
    by (simp add: violin_step_def Inr case_prod_beta Let_def split: sum.splits)
qed

lemma violin_loop_extends:
  "extends h h1 \<Longrightarrow> extends h (fst (violin_loop parse labels t h1 pairs))"
proof (induction pairs arbitrary: h1)
  case Nil
  then show ?case by simp
next
  case (Cons pair pairs)
  obtain h2 r where step: "violin_step parse labels t h1 pair = (h2, r)"
    by (cases "violin_step parse labels t h1 pair")
  from Cons.prems have e: "extends h h2"
    using violin_step_extends [of h h1 parse labels t pair] by (simp add: step)
  show ?case
  proof (cases r)
    case (Inl err)
    with e show ?thesis by (simp add: step)
  next
    case (Inr a)
    obtain h3 r3 where rest: "violin_loop parse labels t h2 pairs = (h3, r3)"
      by (cases "violin_loop parse labels t h2 pairs")
    from Cons.IH [OF e] have "extends h h3" by (simp add: rest)
    then show ?thesis
      by (cases r3) (simp_all add: step Inr rest)
  qed
qed

lemma create_violin_subplots_store_extends:
  "extends h (fst (create_violin_subplots_store parse h pairs labels df))"
  by (simp add: create_violin_subplots_store_def extends_refl violin_loop_extends
      split: option.splits frame.splits)


lemma fresh_new: "length h \<le> length h1 \<Longrightarrow> length h \<le> fst (new_frame h1 v)"
  by (simp add: new_frame_def)

lemma lineplot_step_fresh:
  assumes "extends h (fst st)" "list_all (\<lambda>a. length h \<le> a) (snd st)"
  shows "list_all (\<lambda>a. length h \<le> a) (snd (lineplot_step t st q))"
  using assms extends_length [OF assms(1)]
  by (simp add: lineplot_step_def case_prod_beta Let_def new_frame_def)

lemma foldl_lineplot_fresh:
  "extends h (fst st) \<Longrightarrow> list_all (\<lambda>a. length h \<le> a) (snd st) \<Longrightarrow>
   list_all (\<lambda>a. length h \<le> a) (snd (foldl (lineplot_step t) st qs))"
  by (induction qs arbitrary: st) (simp_all add: lineplot_step_extends lineplot_step_fresh)

lemma derived_frames_fresh:
  "list_all (\<lambda>a. length h \<le> a) (snd (create_age_histplot_store parse h df))"
  "list_all (\<lambda>a. length h \<le> a) (snd (create_gender_barplot_store h df))"
  "list_all (\<lambda>a. length h \<le> a) (snd (create_lineplot_store h df questions))"
  "list_all (\<lambda>a. length h \<le> a) (snd (create_prevalence_barplot_store h df q1 q2))"
  "list_all (\<lambda>a. length h \<le> a)
     (snd (create_correlation_heatmap_store int_of float_of parse h df))"
proof -
  show "list_all (\<lambda>a. length h \<le> a) (snd (create_age_histplot_store parse h df))"
    by (simp add: create_age_histplot_store_def case_prod_beta new_frame_def
        split: option.splits frame.splits)
  show "list_all (\<lambda>a. length h \<le> a) (snd (create_gender_barplot_store h df))"
    by (simp add: create_gender_barplot_store_def case_prod_beta Let_def new_frame_def
        split: option.splits frame.splits)
  show "list_all (\<lambda>a. length h \<le> a) (snd (create_lineplot_store h df questions))"
    by (simp add: create_lineplot_store_def foldl_lineplot_fresh extends_refl
        split: option.splits frame.splits)
  show "list_all (\<lambda>a. length h \<le> a) (snd (create_prevalence_barplot_store h df q1 q2))"
    by (simp add: create_prevalence_barplot_store_def case_prod_beta Let_def new_frame_def
        split: option.splits frame.splits)
  show "list_all (\<lambda>a. length h \<le> a)
      (snd (create_correlation_heatmap_store int_of float_of parse h df))"
  proof (cases "deref h df")
    case None
    then show ?thesis by (simp add: create_correlation_heatmap_store_def)
  next
    case (Some f)
    show ?thesis
    proof (cases f)
      case (CellFrame t)
      let ?df1 = "fst (new_frame h (CellFrame t))"
      let ?h1 = "snd (new_frame h (CellFrame t))"
      obtain h2 r where loop: "heatmap_loop int_of float_of ?df1 ?h1 (map fst t) = (h2, r)"
        by (cases "heatmap_loop int_of float_of ?df1 ?h1 (map fst t)")
      have "length (fst (heatmap_loop int_of float_of ?df1 ?h1 (map fst t))) = length ?h1"
        by (rule length_heatmap_loop)
      then have "length h \<le> length h2"
        by (simp add: loop length_new)
      then have "\<And>v. length h \<le> fst (new_frame h2 v)"
        by (rule fresh_new)
      then show ?thesis
        by (cases r)
           (simp_all add: create_correlation_heatmap_store_def Some CellFrame case_prod_beta
             Let_def loop)
    qed (simp_all add: create_correlation_heatmap_store_def Some)
  qed
qed

text \<open>
  C9. No function changes the table it is given. In the store, where every
  table is an object and a column assignment changes the object assigned to, the
  store after a call of any of the seven functions keeps every frame that
  existed before the call at its address, the input table among them. The tables
  a function derives are new frames at addresses behind those. The only
  assignments through the name \<^verbatim>\<open>df\<close> are those of
  \<^verbatim>\<open>create_correlation_heatmap\<close>, after the name has been bound to a copy.
\<close>

theorem no_component_mutates_input:
  "extends h (fst (find_outliers_store h df features))
   \<and> extends h (fst (create_age_histplot_store parse h df))
   \<and> extends h (fst (create_gender_barplot_store h df))
   \<and> extends h (fst (create_lineplot_store h df questions))
   \<and> extends h (fst (create_prevalence_barplot_store h df q1 q2))
   \<and> extends h (fst (create_correlation_heatmap_store int_of float_of parse h df))
   \<and> extends h (fst (create_violin_subplots_store parse h question_pairs question_labels df))
   \<and> list_all (\<lambda>a. length h \<le> a) (snd (create_age_histplot_store parse h df))
   \<and> list_all (\<lambda>a. length h \<le> a) (snd (create_gender_barplot_store h df))
   \<and> list_all (\<lambda>a. length h \<le> a) (snd (create_lineplot_store h df questions))
   \<and> list_all (\<lambda>a. length h \<le> a) (snd (create_prevalence_barplot_store h df q1 q2))
   \<and> list_all (\<lambda>a. length h \<le> a)
        (snd (create_correlation_heatmap_store int_of float_of parse h df))"
  by (intro conjI find_outliers_store_extends create_age_histplot_store_extends
      create_gender_barplot_store_extends create_lineplot_store_extends
      create_prevalence_barplot_store_extends create_correlation_heatmap_store_extends
      create_violin_subplots_store_extends derived_frames_fresh)

theorem no_component_mutates_input_witness:
  "create_correlation_heatmap_store (\<lambda>s. if s = ''5'' then Some 5 else None)
      (\<lambda>s. if s = ''5'' then Some 5 else None) (\<lambda>s. if s = ''5'' then Some 5 else None)
      [CellFrame [(''a'', [Str ''Yes'', Str ''5''])]] 0 =
     ([CellFrame [(''a'', [Str ''Yes'', Str ''5''])],
       CellFrame [(''a'', [Num 1, Num 5])],
       CoercedFrame [(''a'', [Some 1, Some 5])]], [2])
   \<and> extends [CellFrame [(''a'', [Str ''Yes'', Str ''5''])]]
        [CellFrame [(''a'', [Str ''Yes'', Str ''5''])],
         CellFrame [(''a'', [Num 1, Num 5])],
         CoercedFrame [(''a'', [Some 1, Some 5])]]
   \<and> deref [CellFrame [(''a'', [Str ''Yes'', Str ''5''])],
         CellFrame [(''a'', [Num 1, Num 5])],
         CoercedFrame [(''a'', [Some 1, Some 5])]] 0 =
       Some (CellFrame [(''a'', [Str ''Yes'', Str ''5''])])"
proof -
  let ?i = "\<lambda>s. if s = ''5'' then Some (5::int) else None"
  let ?p = "\<lambda>s. if s = ''5'' then Some (5::real) else None"
  let ?h = "[CellFrame [(''a'', [Str ''Yes'', Str ''5''])]]"
  have pass: "mapping_pass ?i ?p [Str ''Yes'', Str ''5''] = Inr [Num 1, Num 5]"
    by (simp add: mapping_pass_def convert_dtypes_def is_whole_def cast_error_def fill_cells_def
        cast_cell_def map_cell_def series_map_def text_to_num_mapping_def Let_def)
  have run: "create_correlation_heatmap_store ?i ?p ?p ?h 0 =
     ([CellFrame [(''a'', [Str ''Yes'', Str ''5''])],
       CellFrame [(''a'', [Num 1, Num 5])],
       CoercedFrame [(''a'', [Some 1, Some 5])]], [2])"
    by (simp add: create_correlation_heatmap_store_def deref_def new_frame_def
        setitem_def set_column_def get_column_def pass to_numeric_def Let_def)
  from no_component_mutates_input [of ?h 0 "[]" ?p "[]" 0 0 ?i ?p "[]" Map.empty]
  have "extends ?h (fst (create_correlation_heatmap_store ?i ?p ?p ?h 0))"
    by blast
  then have "extends ?h [CellFrame [(''a'', [Str ''Yes'', Str ''5''])],
       CellFrame [(''a'', [Num 1, Num 5])],
       CoercedFrame [(''a'', [Some 1, Some 5])]]"
    by (simp add: run)
  with run show ?thesis
    by (simp add: deref_def)
qed

end
